theory Spec2Isabelle
  imports Main "HOL-Library.List_Lexorder" "HOL-Library.Char_ord"
begin

section \<open>remembrall: command model\<close>

text \<open>
  Shallow embedding of \<^verbatim>\<open>src/remembrall.c\<close>. C strings are \<open>string\<close> (byte lists
  without the terminating NUL), a nullable \<^verbatim>\<open>char *\<close> is a \<open>string option\<close> with
  \<open>None\<close> for \<^verbatim>\<open>NULL\<close>, and what the program writes is a list of \<open>written\<close> items
  in the order written; one item holds the text of one logical print (a log call together
  with the \<^verbatim>\<open>fprintf\<close> calls that continue its line).
\<close>

subsection \<open>Enumerations and the command struct\<close>

datatype Rmbrl_Verbosity_Level = RMBRL_VERB_NORMAL | RMBRL_VERB_SILENT | RMBRL_VERB_VERBOSE

datatype Rmbrl_Log_Level = RMBRL_LOG_INFO | RMBRL_LOG_WARNING | RMBRL_LOG_ERROR

datatype Rmbrl_Command_Function = RMBRL_CMD_UNKNOWN | RMBRL_CMD_ADD | RMBRL_CMD_PEEK | RMBRL_CMD_CLEAR

text \<open>
  \<^verbatim>\<open>Rmbrl_Command\<close>; the fields carry the prefix \<open>cmd_\<close> because \<open>function\<close> is a
  keyword and record fields are global names.
\<close>

record Rmbrl_Command =
  cmd_function :: Rmbrl_Command_Function
  cmd_verbosity :: Rmbrl_Verbosity_Level
  cmd_project :: "string option"
  cmd_task :: "string option"
  cmd_all :: bool
  cmd_dry_run :: bool

datatype written = Stdout string | Stderr string

definition NUL :: char where
  "NUL = CHR 0x00"

definition dquote :: string where
  "dquote = [CHR 0x22]"

definition squote :: string where
  "squote = [CHR 0x27]"

text \<open>\<^verbatim>\<open>rmbrl_log\<close>: the level prefix and the formatted text, on standard error.\<close>

definition rmbrl_log :: "Rmbrl_Log_Level \<Rightarrow> string \<Rightarrow> written" where
  "rmbrl_log level text =
     Stderr ((case level of
                RMBRL_LOG_INFO \<Rightarrow> ''[INFO] ''
              | RMBRL_LOG_WARNING \<Rightarrow> ''[WARNING] ''
              | RMBRL_LOG_ERROR \<Rightarrow> ''[ERROR] '') @ text)"

definition rmbrl_command_function_str :: "Rmbrl_Command_Function \<Rightarrow> string" where
  "rmbrl_command_function_str func =
     (case func of
        RMBRL_CMD_UNKNOWN \<Rightarrow> ''?''
      | RMBRL_CMD_ADD \<Rightarrow> ''add''
      | RMBRL_CMD_PEEK \<Rightarrow> ''peek''
      | RMBRL_CMD_CLEAR \<Rightarrow> ''clear'')"

subsection \<open>The store\<close>

text \<open>
  A row of the table \<^verbatim>\<open>memories\<close>. \<open>mem_created_at\<close> is the text of the timestamp
  (\<^verbatim>\<open>YYYY-MM-DD HH:MM:SS\<close>), which the store compares bytewise.
\<close>

record memory =
  mem_id :: int
  mem_task :: string
  mem_project :: string
  mem_created_at :: string

text \<open>The statements the program issues, with their bound parameters.\<close>

datatype sql =
    SQL_CREATE_TABLE
  | SQL_BEGIN
  | SQL_ROLLBACK
  | SQL_INSERT string string
  | SQL_SELECT "string option"
  | SQL_SELECT_LIMIT_1 "string option"
  | SQL_DELETE "string option"
  | SQL_DELETE_ID int

text \<open>
  Modelled from the spec: the embedded SQL engine (\<^verbatim>\<open>src/deps/sqlite3.c\<close>) is not part
  of the sources, so the session is the relational store the specification describes: a
  table of rows kept in insertion order, identifiers assigned increasingly by the store
  (\<open>db_seq\<close> is the last one assigned), \<open>created_at\<close> set by the store at insertion to its
  clock \<open>db_now\<close>, an explicit transaction that \<^verbatim>\<open>ROLLBACK\<close> (or closing the session)
  undoes, and deletion that returns the deleted rows. \<open>db_txn\<close> holds the table and the
  sequence as they were at \<^verbatim>\<open>BEGIN\<close>; \<open>db_trace\<close> lists the statements executed so
  far. This store accepts every statement the program prepares; the only statements it
  rejects are a \<^verbatim>\<open>BEGIN\<close> inside a transaction and a \<^verbatim>\<open>ROLLBACK\<close> outside one.
\<close>

record sqlite3 =
  db_rows :: "memory list"
  db_seq :: int
  db_now :: string
  db_txn :: "(memory list \<times> int) option"
  db_trace :: "sql list"

text \<open>Modelled from the spec: the filter \<^verbatim>\<open>WHERE project = ?\<close>; no condition when no
  project is bound.\<close>

definition matches :: "string option \<Rightarrow> memory \<Rightarrow> bool" where
  "matches p r = (case p of None \<Rightarrow> True | Some n \<Rightarrow> mem_project r = n)"

text \<open>
  Modelled from the spec: one step of \<^verbatim>\<open>ORDER BY created_at DESC\<close>, placing a row before
  the first row that is not newer. The specification leaves the order of rows with equal
  \<open>created_at\<close> to the store; here they keep their insertion order.
\<close>

fun insert_desc :: "memory \<Rightarrow> memory list \<Rightarrow> memory list" where
  "insert_desc r [] = [r]"
| "insert_desc r (x # xs) =
     (if mem_created_at x \<le> mem_created_at r then r # x # xs else x # insert_desc r xs)"

text \<open>Modelled from the spec: \<^verbatim>\<open>ORDER BY created_at DESC\<close> on rows given in table order.\<close>

fun order_by_created_at_desc :: "memory list \<Rightarrow> memory list" where
  "order_by_created_at_desc [] = []"
| "order_by_created_at_desc (r # rs) = insert_desc r (order_by_created_at_desc rs)"

text \<open>Modelled from the spec: \<^verbatim>\<open>BEGIN TRANSACTION\<close>; the left component is the error text.\<close>

definition sqlite3_begin :: "sqlite3 \<Rightarrow> string option \<times> sqlite3" where
  "sqlite3_begin db =
     (case db_txn db of
        Some _ \<Rightarrow> (Some ''cannot start a transaction within a transaction'', db)
      | None \<Rightarrow> (None, db\<lparr>db_txn := Some (db_rows db, db_seq db),
                             db_trace := db_trace db @ [SQL_BEGIN]\<rparr>))"

text \<open>Modelled from the spec: \<^verbatim>\<open>ROLLBACK\<close> restores the table as it was at \<^verbatim>\<open>BEGIN\<close>.\<close>

definition sqlite3_rollback :: "sqlite3 \<Rightarrow> string option \<times> sqlite3" where
  "sqlite3_rollback db =
     (case db_txn db of
        None \<Rightarrow> (Some ''cannot rollback - no transaction is active'', db)
      | Some (rows, seq) \<Rightarrow> (None, db\<lparr>db_rows := rows, db_seq := seq, db_txn := None,
                                        db_trace := db_trace db @ [SQL_ROLLBACK]\<rparr>))"

text \<open>
  Modelled from the spec: \<^verbatim>\<open>INSERT INTO memories (task, project) VALUES (?, ?)\<close>; the
  store assigns the identifier and the timestamp.
\<close>

definition sqlite3_insert :: "string \<Rightarrow> string \<Rightarrow> sqlite3 \<Rightarrow> sqlite3" where
  "sqlite3_insert t p db =
     db\<lparr>db_rows := db_rows db @
           [\<lparr>mem_id = db_seq db + 1, mem_task = t, mem_project = p,
             mem_created_at = db_now db\<rparr>],
        db_seq := db_seq db + 1,
        db_trace := db_trace db @ [SQL_INSERT t p]\<rparr>"

text \<open>
  Modelled from the spec: \<^verbatim>\<open>SELECT * FROM memories [WHERE project = ?] ORDER BY
  created_at DESC\<close>.
\<close>

definition sqlite3_select :: "string option \<Rightarrow> sqlite3 \<Rightarrow> memory list \<times> sqlite3" where
  "sqlite3_select p db =
     (order_by_created_at_desc (filter (matches p) (db_rows db)),
      db\<lparr>db_trace := db_trace db @ [SQL_SELECT p]\<rparr>)"

text \<open>Modelled from the spec: the same query with \<^verbatim>\<open>LIMIT 1\<close>.\<close>

definition sqlite3_select_limit_1 :: "string option \<Rightarrow> sqlite3 \<Rightarrow> memory list \<times> sqlite3" where
  "sqlite3_select_limit_1 p db =
     (take 1 (order_by_created_at_desc (filter (matches p) (db_rows db))),
      db\<lparr>db_trace := db_trace db @ [SQL_SELECT_LIMIT_1 p]\<rparr>)"

text \<open>
  Modelled from the spec: \<^verbatim>\<open>DELETE FROM memories [WHERE project = ?] RETURNING *\<close>; the
  deleted rows are returned in table order.
\<close>

definition sqlite3_delete :: "string option \<Rightarrow> sqlite3 \<Rightarrow> memory list \<times> sqlite3" where
  "sqlite3_delete p db =
     (filter (matches p) (db_rows db),
      db\<lparr>db_rows := filter (\<lambda>r. \<not> matches p r) (db_rows db),
         db_trace := db_trace db @ [SQL_DELETE p]\<rparr>)"

text \<open>Modelled from the spec: \<^verbatim>\<open>DELETE FROM memories WHERE id = ? RETURNING *\<close>.\<close>

definition sqlite3_delete_id :: "int \<Rightarrow> sqlite3 \<Rightarrow> memory list \<times> sqlite3" where
  "sqlite3_delete_id i db =
     (filter (\<lambda>r. mem_id r = i) (db_rows db),
      db\<lparr>db_rows := filter (\<lambda>r. mem_id r \<noteq> i) (db_rows db),
         db_trace := db_trace db @ [SQL_DELETE_ID i]\<rparr>)"

text \<open>Modelled from the spec: \<^verbatim>\<open>CREATE TABLE IF NOT EXISTS memories(...)\<close>.\<close>

definition sqlite3_create_table :: "sqlite3 \<Rightarrow> sqlite3" where
  "sqlite3_create_table db = db\<lparr>db_trace := db_trace db @ [SQL_CREATE_TABLE]\<rparr>"

text \<open>Modelled from the spec: closing the session undoes a transaction that is still open.\<close>

definition sqlite3_close :: "sqlite3 \<Rightarrow> sqlite3" where
  "sqlite3_close db =
     (case db_txn db of
        None \<Rightarrow> db
      | Some (rows, seq) \<Rightarrow> db\<lparr>db_rows := rows, db_seq := seq, db_txn := None\<rparr>)"

text \<open>
  Modelled from the spec: reading the integer identifier of a row into the C \<^verbatim>\<open>int id\<close>
  of line 462 through \<^verbatim>\<open>sqlite3_column_int\<close>, which keeps the low 32 bits of the 64-bit
  value, read as signed.
\<close>

definition sqlite3_column_int :: "int \<Rightarrow> int" where
  "sqlite3_column_int v = (v + 2 ^ 31) mod 2 ^ 32 - 2 ^ 31"

text \<open>Modelled from the spec: a decimal digit, for the statement text below.\<close>

definition digit :: "nat \<Rightarrow> char" where
  "digit d = char_of (d + 48)"

text \<open>Modelled from the spec: a natural number in decimal, in front of \<open>acc\<close>.\<close>

fun decimal :: "nat \<Rightarrow> string \<Rightarrow> string" where
  "decimal n acc =
     (if n < 10 then digit n # acc else decimal (n div 10) (digit (n mod 10) # acc))"

text \<open>Modelled from the spec: a bound integer as the statement text shows it.\<close>

definition sql_int :: "int \<Rightarrow> string" where
  "sql_int i = (if i < 0 then CHR ''-'' # decimal (nat (- i)) [] else decimal (nat i) [])"

text \<open>Modelled from the spec: a bound text as the statement text shows it, in single quotes
  with each quote doubled.\<close>

definition sql_quote :: "string \<Rightarrow> string" where
  "sql_quote s = squote @ concat (map (\<lambda>c. if [c] = squote then squote @ squote else [c]) s) @ squote"

text \<open>
  Modelled from the spec: \<^verbatim>\<open>sqlite3_expanded_sql\<close>, the statement text with the bound
  parameters written out. It is printed in verbose mode only.
\<close>

definition sqlite3_expanded_sql :: "sql \<Rightarrow> string" where
  "sqlite3_expanded_sql q =
     (case q of
        SQL_CREATE_TABLE \<Rightarrow> ''CREATE TABLE IF NOT EXISTS memories(...);''
      | SQL_BEGIN \<Rightarrow> ''BEGIN TRANSACTION;''
      | SQL_ROLLBACK \<Rightarrow> ''ROLLBACK;''
      | SQL_INSERT t p \<Rightarrow>
          ''INSERT INTO memories (task, project) VALUES ('' @ sql_quote t @ '', '' @ sql_quote p @ '');''
      | SQL_SELECT None \<Rightarrow> ''SELECT * FROM memories ORDER BY created_at DESC;''
      | SQL_SELECT (Some p) \<Rightarrow>
          ''SELECT * FROM memories WHERE project = '' @ sql_quote p @ '' ORDER BY created_at DESC;''
      | SQL_SELECT_LIMIT_1 None \<Rightarrow> ''SELECT * FROM memories ORDER BY created_at DESC LIMIT 1''
      | SQL_SELECT_LIMIT_1 (Some p) \<Rightarrow>
          ''SELECT * FROM memories WHERE project = '' @ sql_quote p @ '' ORDER BY created_at DESC LIMIT 1;''
      | SQL_DELETE None \<Rightarrow> ''DELETE FROM memories RETURNING *;''
      | SQL_DELETE (Some p) \<Rightarrow> ''DELETE FROM memories WHERE project = '' @ sql_quote p @ '' RETURNING *;''
      | SQL_DELETE_ID i \<Rightarrow> ''DELETE FROM memories WHERE id = '' @ sql_int i @ '' RETURNING *;'')"

subsection \<open>Transactions\<close>

text \<open>\<^verbatim>\<open>rmbrl_db_begin_transaction\<close> and \<^verbatim>\<open>rmbrl_db_rollback_transaction\<close>: the result code,
  the session afterwards and what was logged.\<close>

definition rmbrl_db_begin_transaction ::
  "sqlite3 \<Rightarrow> Rmbrl_Verbosity_Level \<Rightarrow> int \<times> sqlite3 \<times> written list" where
  "rmbrl_db_begin_transaction db verbosity =
     (case sqlite3_begin db of
        (Some err_msg, db') \<Rightarrow>
          (1, db', [rmbrl_log RMBRL_LOG_ERROR (''Failed to begin transaction: '' @ err_msg @ ''\<newline>'')])
      | (None, db') \<Rightarrow>
          (0, db', if verbosity = RMBRL_VERB_VERBOSE
                   then [rmbrl_log RMBRL_LOG_INFO ''Begin transaction...\<newline>''] else []))"

definition rmbrl_db_rollback_transaction ::
  "sqlite3 \<Rightarrow> Rmbrl_Verbosity_Level \<Rightarrow> int \<times> sqlite3 \<times> written list" where
  "rmbrl_db_rollback_transaction db verbosity =
     (case sqlite3_rollback db of
        (Some err_msg, db') \<Rightarrow>
          (1, db', [rmbrl_log RMBRL_LOG_ERROR (''Failed to rollback transaction: '' @ err_msg @ ''\<newline>'')])
      | (None, db') \<Rightarrow>
          (0, db', if verbosity = RMBRL_VERB_VERBOSE
                   then [rmbrl_log RMBRL_LOG_INFO ''Rollback transaction...\<newline>''] else []))"

subsection \<open>Pieces the three executors share\<close>

text \<open>
  The project length check that opens each executor (lines 282-287, 337-342, 411-416):
  the error report when a project is given and is longer than 256 bytes.
\<close>

definition check_project :: "Rmbrl_Command \<Rightarrow> written option" where
  "check_project cmd =
     (case cmd_project cmd of
        None \<Rightarrow> None
      | Some p \<Rightarrow>
          if length p > 256
          then Some (rmbrl_log RMBRL_LOG_ERROR
                 (''Project '' @ dquote @ p @ dquote @ '' exceeds char limit of 256 bytes.\<newline>''))
          else None)"

text \<open>
  The line printed for one row (lines 375-390, 466-478, 520-535): the task in double
  quotes, the project when it is not empty and, when \<open>dated\<close>, the first ten bytes of
  \<open>created_at\<close>.
\<close>

definition row_line :: "bool \<Rightarrow> memory \<Rightarrow> written" where
  "row_line dated r =
     rmbrl_log RMBRL_LOG_INFO
       (''    '' @ dquote @ mem_task r @ dquote @
        (if length (mem_project r) > 0 then '' -- '' @ mem_project r else []) @
        (if dated then '' -- '' @ take 10 (mem_created_at r) else []) @
        ''\<newline>'')"

definition query_log :: "Rmbrl_Command \<Rightarrow> sql \<Rightarrow> written list" where
  "query_log cmd q =
     (if cmd_verbosity cmd = RMBRL_VERB_VERBOSE
      then [rmbrl_log RMBRL_LOG_INFO (''Query: '' @ sqlite3_expanded_sql q @ ''\<newline>'')]
      else [])"

subsection \<open>add\<close>

text \<open>
  \<^verbatim>\<open>rmbrl_command_add\<close>. The result is \<open>None\<close> when the call dereferences a \<^verbatim>\<open>NULL\<close>
  task (\<^verbatim>\<open>strlen(cmd->task)\<close>, line 277); otherwise the return value, the session and
  what was logged.
\<close>

definition rmbrl_command_add ::
  "Rmbrl_Command \<Rightarrow> sqlite3 \<Rightarrow> (int \<times> sqlite3 \<times> written list) option" where
  "rmbrl_command_add cmd db =
     (case cmd_task cmd of
        None \<Rightarrow> None
      | Some task \<Rightarrow>
          if length task > 256
          then Some (1, db, [rmbrl_log RMBRL_LOG_ERROR
                 (''Task '' @ dquote @ task @ dquote @ '' exceeds char limit of 256 bytes.\<newline>'')])
          else (case check_project cmd of
             Some e \<Rightarrow> Some (1, db, [e])
           | None \<Rightarrow>
              (let (rc, db1, out1) =
                     (if cmd_dry_run cmd
                      then (case rmbrl_db_begin_transaction db (cmd_verbosity cmd) of
                              (rc, d, out) \<Rightarrow>
                                (rc, d, rmbrl_log RMBRL_LOG_INFO
                                   ''Performing dry run. Memory will NOT be remembered!\<newline>'' # out))
                      else (0, db, []))
               in if rc \<noteq> 0 then Some (rc, db1, out1)
                  else
                    (let project = (case cmd_project cmd of None \<Rightarrow> [] | Some p \<Rightarrow> p);
                         db2 = sqlite3_insert task project db1;
                         out2 = out1 @ query_log cmd (SQL_INSERT task project) @
                                [rmbrl_log RMBRL_LOG_INFO
                                   (dquote @ task @ dquote @ '' was added to your memory!\<newline>'')]
                     in if cmd_dry_run cmd
                        then (case rmbrl_db_rollback_transaction db2 (cmd_verbosity cmd) of
                                (rc3, db3, out3) \<Rightarrow>
                                  if rc3 \<noteq> 0 then Some (rc3, db3, out2 @ out3)
                                  else Some (0, db3, out2 @ out3))
                        else Some (0, db2, out2)))))"

subsection \<open>peek\<close>

text \<open>The row loop of \<^verbatim>\<open>rmbrl_command_peek\<close> (lines 371-397): it stops after the first
  row unless \<open>all\<close> is set.\<close>

fun peek_loop :: "Rmbrl_Command \<Rightarrow> memory list \<Rightarrow> written list" where
  "peek_loop cmd [] = []"
| "peek_loop cmd (r # rs) =
     row_line (cmd_verbosity cmd = RMBRL_VERB_VERBOSE) r #
     (if \<not> cmd_all cmd then [] else peek_loop cmd rs)"

definition rmbrl_command_peek ::
  "Rmbrl_Command \<Rightarrow> sqlite3 \<Rightarrow> int \<times> sqlite3 \<times> written list" where
  "rmbrl_command_peek cmd db =
     (case check_project cmd of
        Some e \<Rightarrow> (1, db, [e])
      | None \<Rightarrow>
          (let (rows, db1) = sqlite3_select (cmd_project cmd) db
           in (0, db1,
               query_log cmd (SQL_SELECT (cmd_project cmd)) @
               (if cmd_verbosity cmd \<noteq> RMBRL_VERB_SILENT
                then [rmbrl_log RMBRL_LOG_INFO ''Currently Remembering:\<newline>''] else []) @
               peek_loop cmd rows)))"

subsection \<open>clear\<close>

text \<open>
  The first phase of \<^verbatim>\<open>rmbrl_command_clear\<close> (lines 426-481): without \<open>all\<close>, find the
  identifier of the row to delete. \<open>Inl\<close> is the early return of line 459; \<open>Inr\<close> carries
  the C \<^verbatim>\<open>int id\<close>, which stays \<open>-1\<close> when \<open>all\<close> is set.
\<close>

definition clear_resolve ::
  "Rmbrl_Command \<Rightarrow> sqlite3 \<Rightarrow> (sqlite3 \<times> written list) + (int \<times> sqlite3 \<times> written list)" where
  "clear_resolve cmd db =
     (if \<not> cmd_all cmd
      then (let (rows, db2) = sqlite3_select_limit_1 (cmd_project cmd) db;
                out = query_log cmd (SQL_SELECT_LIMIT_1 (cmd_project cmd))
            in case rows of
                 [] \<Rightarrow> Inl (db2, out @ [rmbrl_log RMBRL_LOG_ERROR
                              ''Failed to remember memory to delete: not an error\<newline>''])
               | r # _ \<Rightarrow>
                   Inr (sqlite3_column_int (mem_id r), db2,
                        out @ (if cmd_verbosity cmd = RMBRL_VERB_VERBOSE
                               then [rmbrl_log RMBRL_LOG_INFO ''Found Memory:\<newline>'', row_line True r]
                               else [])))
      else Inr (- 1, db, []))"

text \<open>
  The second phase (lines 483-553): delete by identifier, or every matching row when
  the identifier is \<open>-1\<close>, print the deleted rows, and roll back on a dry run (\<open>rid\<close> is the source's \<^verbatim>\<open>id\<close>).
\<close>

definition clear_delete ::
  "Rmbrl_Command \<Rightarrow> int \<Rightarrow> sqlite3 \<Rightarrow> int \<times> sqlite3 \<times> written list" where
  "clear_delete cmd rid db =
     (let q = (if rid = - 1 then SQL_DELETE (cmd_project cmd) else SQL_DELETE_ID rid);
          (deleted, db3) = (if rid = - 1 then sqlite3_delete (cmd_project cmd) db
                            else sqlite3_delete_id rid db);
          out = query_log cmd q @
                (if cmd_verbosity cmd \<noteq> RMBRL_VERB_SILENT
                 then [rmbrl_log RMBRL_LOG_INFO ''Forgotten Memories:\<newline>''] else []) @
                map (row_line (cmd_verbosity cmd = RMBRL_VERB_VERBOSE)) deleted
      in if cmd_dry_run cmd
         then (case rmbrl_db_rollback_transaction db3 (cmd_verbosity cmd) of
                 (rc4, db4, out4) \<Rightarrow>
                   if rc4 \<noteq> 0 then (rc4, db4, out @ out4) else (0, db4, out @ out4))
         else (0, db3, out))"

definition rmbrl_command_clear ::
  "Rmbrl_Command \<Rightarrow> sqlite3 \<Rightarrow> int \<times> sqlite3 \<times> written list" where
  "rmbrl_command_clear cmd db =
     (case check_project cmd of
        Some e \<Rightarrow> (1, db, [e])
      | None \<Rightarrow>
          (let (rc, db1, out1) =
                 (if cmd_dry_run cmd
                  then (case rmbrl_db_begin_transaction db (cmd_verbosity cmd) of
                          (rc, d, out) \<Rightarrow>
                            (rc, d, rmbrl_log RMBRL_LOG_INFO
                               ''Performing dry run. Memory will NOT be forgotten!\<newline>'' # out))
                  else (0, db, []))
           in if rc \<noteq> 0 then (rc, db1, out1)
              else (case clear_resolve cmd db1 of
                      Inl (db2, out2) \<Rightarrow> (1, db2, out1 @ out2)
                    | Inr (rid, db2, out2) \<Rightarrow>
                        (case clear_delete cmd rid db2 of
                           (rc3, db3, out3) \<Rightarrow> (rc3, db3, out1 @ out2 @ out3)))))"

section \<open>Entry point\<close>

subsection \<open>Argument memory\<close>

text \<open>
  The scanner indexes an argument at fixed offsets without looking at its length
  (\<^verbatim>\<open>argv[i][2]\<close>, \<^verbatim>\<open>argv[i][9]\<close>, lines 619 and 624), and keeps pointers into it
  (\<^verbatim>\<open>argv[i] + 3\<close>, \<^verbatim>\<open>argv[i] + 10\<close>). Such a read can pass the terminator of a short
  argument, so the model carries the bytes that follow it: the argument strings lie back to
  back, each closed by a NUL, as the program loader places them, and \<open>trailing\<close> is what
  follows the last argument (the environment strings). A byte beyond the modelled block
  reads as NUL. Arguments themselves hold no NUL.
\<close>

definition argv_mem :: "string list \<Rightarrow> string \<Rightarrow> string" where
  "argv_mem args trailing = concat (map (\<lambda>a. a @ [NUL]) args) @ trailing"

definition byte_at :: "string \<Rightarrow> nat \<Rightarrow> char" where
  "byte_at mem j = (if j < length mem then mem ! j else NUL)"

definition cstr_at :: "string \<Rightarrow> nat \<Rightarrow> string" where
  "cstr_at mem j = takeWhile (\<lambda>c. c \<noteq> NUL) (drop j mem)"

subsection \<open>The flag loop\<close>

text \<open>
  The body of the loop of \<^verbatim>\<open>main\<close> over \<^verbatim>\<open>argv[2..]\<close> (lines 594-665) at the
  argument \<open>arg\<close>, with \<open>rest\<close> the arguments after it. The state is the command built so
  far and the ignored flags. \<open>None\<close> is the return of line 643; otherwise the new state
  and whether the next argument was consumed too (\<^verbatim>\<open>++i\<close>, line 637).
  \<^verbatim>\<open>strcmp(a, s) == 0\<close> is \<open>a = s\<close> and \<^verbatim>\<open>strncmp(a, s, n) == 0\<close> is \<open>take n a = s\<close>.
\<close>

definition scan_step ::
  "string \<Rightarrow> string \<Rightarrow> string list \<Rightarrow> Rmbrl_Command \<times> string list \<Rightarrow>
   ((Rmbrl_Command \<times> string list) \<times> bool) option" where
  "scan_step trailing arg rest st =
     (case st of (cmd, ignored_flags) \<Rightarrow>
      if (arg = ''--all'' \<or> arg = ''-a'') \<and> cmd_function cmd \<noteq> RMBRL_CMD_ADD
      then Some ((cmd\<lparr>cmd_all := True\<rparr>, ignored_flags), False)
      else if arg = ''--dry-run'' \<or> arg = ''-n''
      then Some ((cmd\<lparr>cmd_dry_run := True\<rparr>, ignored_flags), False)
      else if arg = ''--verbose'' \<or> arg = ''-v''
      then Some ((cmd\<lparr>cmd_verbosity := RMBRL_VERB_VERBOSE\<rparr>, ignored_flags), False)
      else if arg = ''--silent'' \<or> arg = ''-s''
      then Some ((cmd\<lparr>cmd_verbosity := RMBRL_VERB_SILENT\<rparr>, ignored_flags), False)
      else if take 2 arg = ''-p'' \<or> take 9 arg = ''--project''
      then (let mem = argv_mem (arg # rest) trailing
            in if byte_at mem 2 = CHR ''=''
               then Some ((cmd\<lparr>cmd_project := Some (cstr_at mem 3)\<rparr>, ignored_flags), False)
               else if byte_at mem 9 = CHR ''=''
               then Some ((cmd\<lparr>cmd_project := Some (cstr_at mem 10)\<rparr>, ignored_flags), False)
               else (case rest of
                       [] \<Rightarrow> None
                     | name # _ \<Rightarrow>
                         if byte_at name 0 \<noteq> CHR ''-''
                         then Some ((cmd\<lparr>cmd_project := Some name\<rparr>, ignored_flags), True)
                         else None))
      else if cmd_function cmd = RMBRL_CMD_ADD \<and> cmd_task cmd = None \<and> byte_at arg 0 \<noteq> CHR ''-''
      then Some ((cmd\<lparr>cmd_task := Some arg\<rparr>, ignored_flags), False)
      else Some ((cmd, ignored_flags @ [arg]), False))"

text \<open>The loop itself (line 592), as a recursion over the arguments still to be read.\<close>

fun scan_args ::
  "string \<Rightarrow> string list \<Rightarrow> Rmbrl_Command \<times> string list \<Rightarrow> (Rmbrl_Command \<times> string list) option" where
  "scan_args trailing [] st = Some st"
| "scan_args trailing (arg # rest) st =
     (case scan_step trailing arg rest st of
        None \<Rightarrow> None
      | Some (st', consumed_next) \<Rightarrow>
          scan_args trailing (if consumed_next then drop 1 rest else rest) st')"

text \<open>The warning of lines 668-678: the ignored flags in order, separated by a comma and
  a blank.\<close>

fun comma_separated :: "string list \<Rightarrow> string" where
  "comma_separated [] = []"
| "comma_separated [x] = x"
| "comma_separated (x # y # ys) = x @ '', '' @ comma_separated (y # ys)"

definition ignored_warning :: "Rmbrl_Command \<Rightarrow> string list \<Rightarrow> written list" where
  "ignored_warning cmd ignored_flags =
     (if cmd_verbosity cmd \<noteq> RMBRL_VERB_SILENT \<and> length ignored_flags > 0
      then [rmbrl_log RMBRL_LOG_WARNING
              (''Ignoring flags: '' @ comma_separated ignored_flags @ ''\<newline>'')]
      else [])"

subsection \<open>Help and the verbose dump\<close>

definition rmbrl_print_help :: "written list" where
  "rmbrl_print_help =
     [Stdout ''Usage: program (COMMAND) [FLAGS]\<newline>\<newline>'',
      Stdout ''Commands:\<newline>'',
      Stdout ''  add     Add memory to your collection (supports --project)\<newline>'',
      Stdout (''  peek    Show what you'' @ squote @ ''re currently remembering (supports --all, --project)\<newline>''),
      Stdout ''  clear   Forget memories (supports --all, --project)\<newline>\<newline>'',
      Stdout ''Command Flags:\<newline>'',
      Stdout ''  -p, --project    Tag and filter memories by project name\<newline>'',
      Stdout ''                   (supported by: add, peek, clear)\<newline>'',
      Stdout ''  -a, --all        Apply operation to all memories\<newline>'',
      Stdout ''                   (supported by: peek, clear)\<newline>\<newline>'',
      Stdout ''Global Flags:\<newline>'',
      Stdout ''  -h, --help       Show help information\<newline>'',
      Stdout ''  -V, --version    Show version information\<newline>'',
      Stdout ''  -v, --verbose    Enable verbose output\<newline>'',
      Stdout ''  -s, --silent     Enable silent mode\<newline>'',
      Stdout ''  -n, --dry-run    Perform dry run without making changes\<newline>'']"

text \<open>\<^verbatim>\<open>rmbrl_command_debug_print\<close>; a \<^verbatim>\<open>NULL\<close> string under \<^verbatim>\<open>%s\<close> is shown the way
  the C library prints it.\<close>

definition printf_s :: "string option \<Rightarrow> string" where
  "printf_s s = (case s of None \<Rightarrow> ''(null)'' | Some t \<Rightarrow> t)"

definition rmbrl_command_debug_print :: "Rmbrl_Command \<Rightarrow> written list" where
  "rmbrl_command_debug_print cmd =
     (let cmd_verbosity_str =
            (case cmd_verbosity cmd of
               RMBRL_VERB_NORMAL \<Rightarrow> ''normal''
             | RMBRL_VERB_SILENT \<Rightarrow> ''silent''
             | RMBRL_VERB_VERBOSE \<Rightarrow> ''verbose'')
      in [rmbrl_log RMBRL_LOG_INFO ''Parsed Command Line Args:\<newline>'',
          rmbrl_log RMBRL_LOG_INFO (''    function: '' @ rmbrl_command_function_str (cmd_function cmd) @ ''\<newline>''),
          rmbrl_log RMBRL_LOG_INFO (''    task: '' @ printf_s (cmd_task cmd) @ ''\<newline>''),
          rmbrl_log RMBRL_LOG_INFO (''    project: '' @ printf_s (cmd_project cmd) @ ''\<newline>''),
          rmbrl_log RMBRL_LOG_INFO (''    all: '' @ (if cmd_all cmd then ''true'' else ''false'') @ ''\<newline>''),
          rmbrl_log RMBRL_LOG_INFO (''    dry-run: '' @ (if cmd_dry_run cmd then ''true'' else ''false'') @ ''\<newline>''),
          rmbrl_log RMBRL_LOG_INFO (''    verbosity: '' @ cmd_verbosity_str @ ''\<newline>'')])"

subsection \<open>main\<close>

text \<open>
  \<^verbatim>\<open>main\<close>. \<open>argv\<close> includes the program name. \<open>storage\<close> stands for the
  platform-specific lines 690-742 (data directory, \<^verbatim>\<open>mkdir\<close>, \<^verbatim>\<open>sqlite3_open\<close>),
  which are outside this model: \<open>Inl es\<close> when they return 1, having written \<open>es\<close>, and
  \<open>Inr path\<close> when the session on \<open>file\<close> is open. The result is \<open>None\<close> when the run
  does not return (\<^verbatim>\<open>add\<close> on a \<^verbatim>\<open>NULL\<close> task, the unreachable default of the
  dispatch); otherwise the exit code, the store after \<^verbatim>\<open>sqlite3_close\<close> and what was
  written.
\<close>

definition main ::
  "string list \<Rightarrow> string \<Rightarrow> written list + string \<Rightarrow> sqlite3 \<Rightarrow>
   (int \<times> sqlite3 \<times> written list) option" where
  "main argv trailing storage file =
     (if length argv \<le> 1 then Some (1, file, rmbrl_print_help)
      else if argv ! 1 = ''--help'' \<or> argv ! 1 = ''-h'' then Some (0, file, rmbrl_print_help)
      else if argv ! 1 = ''--version'' \<or> argv ! 1 = ''-V''
      then Some (0, file, [Stdout ''remembrall v0.1.0\<newline>''])
      else
        (let func = (if argv ! 1 = ''add'' then RMBRL_CMD_ADD
                     else if argv ! 1 = ''peek'' then RMBRL_CMD_PEEK
                     else if argv ! 1 = ''clear'' then RMBRL_CMD_CLEAR
                     else RMBRL_CMD_UNKNOWN)
         in if func = RMBRL_CMD_UNKNOWN
            then Some (1, file,
                   rmbrl_log RMBRL_LOG_ERROR (''Unknown command '' @ squote @ argv ! 1 @ squote @ ''\<newline>'')
                   # rmbrl_print_help)
            else
              (case scan_args trailing (drop 2 argv)
                      (\<lparr>cmd_function = func, cmd_verbosity = RMBRL_VERB_NORMAL, cmd_project = None,
                        cmd_task = None, cmd_all = False, cmd_dry_run = False\<rparr>, []) of
                 None \<Rightarrow> Some (1, file, [rmbrl_log RMBRL_LOG_ERROR
                                  ''Project flag provided but missing project name\<newline>''])
               | Some (cmd, ignored_flags) \<Rightarrow>
                  (let out1 = ignored_warning cmd ignored_flags @
                              (if cmd_verbosity cmd = RMBRL_VERB_VERBOSE
                               then rmbrl_command_debug_print cmd else [])
                   in if cmd_function cmd = RMBRL_CMD_ADD \<and> cmd_task cmd = None
                      then Some (1, file, out1 @ [rmbrl_log RMBRL_LOG_ERROR
                             (''Running '' @ dquote @ ''add'' @ dquote @ '' command but missing task description\<newline>'')])
                      else
                        (case storage of
                           Inl es \<Rightarrow> Some (1, file, out1 @ es)
                         | Inr db_path \<Rightarrow>
                            (let out2 = out1 @
                                   (if cmd_verbosity cmd = RMBRL_VERB_VERBOSE
                                    then [rmbrl_log RMBRL_LOG_INFO (''DB Path: '' @ db_path @ ''\<newline>''),
                                          rmbrl_log RMBRL_LOG_INFO ''Database connection successful!\<newline>'',
                                          rmbrl_log RMBRL_LOG_INFO
                                            (''Table '' @ dquote @ ''memories'' @ dquote @ '' exists or created successfully!\<newline>'')]
                                    else []);
                                 db = sqlite3_create_table file
                             in (case cmd_function cmd of
                                   RMBRL_CMD_ADD \<Rightarrow>
                                     (case rmbrl_command_add cmd db of
                                        None \<Rightarrow> None
                                      | Some (result, db', out) \<Rightarrow> Some (result, sqlite3_close db', out2 @ out))
                                 | RMBRL_CMD_PEEK \<Rightarrow>
                                     (case rmbrl_command_peek cmd db of
                                        (result, db', out) \<Rightarrow> Some (result, sqlite3_close db', out2 @ out))
                                 | RMBRL_CMD_CLEAR \<Rightarrow>
                                     (case rmbrl_command_clear cmd db of
                                        (result, db', out) \<Rightarrow> Some (result, sqlite3_close db', out2 @ out))
                                 | RMBRL_CMD_UNKNOWN \<Rightarrow> None)))))))"

section \<open>Notions used by the properties\<close>

text \<open>A command with the given function, project and task and every flag off.\<close>

definition command :: "Rmbrl_Command_Function \<Rightarrow> string option \<Rightarrow> string option \<Rightarrow> Rmbrl_Command" where
  "command f p t =
     \<lparr>cmd_function = f, cmd_verbosity = RMBRL_VERB_NORMAL, cmd_project = p, cmd_task = t,
      cmd_all = False, cmd_dry_run = False\<rparr>"

text \<open>A store outside any transaction, and a row, for concrete instances.\<close>

definition store :: "memory list \<Rightarrow> string \<Rightarrow> sqlite3" where
  "store rows now =
     \<lparr>db_rows = rows, db_seq = int (length rows), db_now = now, db_txn = None, db_trace = []\<rparr>"

definition row :: "int \<Rightarrow> string \<Rightarrow> string \<Rightarrow> string \<Rightarrow> memory" where
  "row i t p c = \<lparr>mem_id = i, mem_task = t, mem_project = p, mem_created_at = c\<rparr>"

text \<open>The statements that delete.\<close>

definition is_delete :: "sql \<Rightarrow> bool" where
  "is_delete q = (case q of SQL_DELETE _ \<Rightarrow> True | SQL_DELETE_ID _ \<Rightarrow> True | _ \<Rightarrow> False)"

text \<open>What \<^verbatim>\<open>peek\<close> writes in normal verbosity when it prints no row: the report of an
  oversized project, or the header alone.\<close>

definition peek_without_rows :: "Rmbrl_Command \<Rightarrow> written list" where
  "peek_without_rows cmd =
     (case check_project cmd of
        Some e \<Rightarrow> [e]
      | None \<Rightarrow> [rmbrl_log RMBRL_LOG_INFO ''Currently Remembering:\<newline>''])"

text \<open>
  The round trip as the specification words it: after \<^verbatim>\<open>add\<close> with project \<open>P\<close> and task
  \<open>t\<close> on the store \<open>db\<close>, \<^verbatim>\<open>peek\<close> with filter \<open>P\<close> prints the added row as its one row
  and \<^verbatim>\<open>peek\<close> with filter \<open>Q\<close> prints no row.
\<close>

definition roundtrip :: "sqlite3 \<Rightarrow> string \<Rightarrow> string \<Rightarrow> string \<Rightarrow> bool" where
  "roundtrip db t P Q =
     (case rmbrl_command_add (command RMBRL_CMD_ADD (Some P) (Some t)) db of
        None \<Rightarrow> False
      | Some (rc, db', out) \<Rightarrow>
          snd (snd (rmbrl_command_peek (command RMBRL_CMD_PEEK (Some P) None) db')) =
            [rmbrl_log RMBRL_LOG_INFO ''Currently Remembering:\<newline>'',
             row_line False \<lparr>mem_id = db_seq db + 1, mem_task = t, mem_project = P,
                              mem_created_at = db_now db\<rparr>] \<and>
          snd (snd (rmbrl_command_peek (command RMBRL_CMD_PEEK (Some Q) None) db')) =
            peek_without_rows (command RMBRL_CMD_PEEK (Some Q) None))"

section \<open>Facts about the store\<close>

lemma set_insert_desc: "set (insert_desc r xs) = insert r (set xs)"
  by (induction xs) auto

lemma set_order_by_created_at_desc: "set (order_by_created_at_desc xs) = set xs"
  by (induction xs) (auto simp: set_insert_desc)

lemma sorted_insert_desc:
  "sorted_wrt (\<lambda>a b. mem_created_at b \<le> mem_created_at a) xs \<Longrightarrow>
   sorted_wrt (\<lambda>a b. mem_created_at b \<le> mem_created_at a) (insert_desc r xs)"
  by (induction xs) (auto simp: set_insert_desc)

lemma sorted_order_by_created_at_desc:
  "sorted_wrt (\<lambda>a b. mem_created_at b \<le> mem_created_at a) (order_by_created_at_desc xs)"
  by (induction xs) (auto simp: sorted_insert_desc)

lemma order_by_head_latest:
  assumes "order_by_created_at_desc xs = y # ys"
  shows "y \<in> set xs \<and> (\<forall>x \<in> set xs. mem_created_at x \<le> mem_created_at y)"
proof -
  have s: "set xs = insert y (set ys)"
    using assms set_order_by_created_at_desc [of xs] by simp
  have "sorted_wrt (\<lambda>a b. mem_created_at b \<le> mem_created_at a) (y # ys)"
    using assms sorted_order_by_created_at_desc [of xs] by simp
  then have "\<forall>x \<in> set ys. mem_created_at x \<le> mem_created_at y" by simp
  with s show ?thesis by auto
qed

lemma order_by_Nil: "order_by_created_at_desc xs = [] \<longleftrightarrow> xs = []"
  using set_order_by_created_at_desc [of xs] by (cases xs) auto

lemma order_by_newest_last:
  "\<forall>x \<in> set xs. mem_created_at x < mem_created_at n \<Longrightarrow>
   order_by_created_at_desc (xs @ [n]) = n # order_by_created_at_desc xs"
  by (induction xs) (auto simp: not_le)

lemma begin_cases:
  "rmbrl_db_begin_transaction db v =
     (if db_txn db = None
      then (0, db\<lparr>db_txn := Some (db_rows db, db_seq db), db_trace := db_trace db @ [SQL_BEGIN]\<rparr>,
            if v = RMBRL_VERB_VERBOSE then [rmbrl_log RMBRL_LOG_INFO ''Begin transaction...\<newline>''] else [])
      else (1, db, [rmbrl_log RMBRL_LOG_ERROR
              (''Failed to begin transaction: cannot start a transaction within a transaction\<newline>'')]))"
  by (auto simp: rmbrl_db_begin_transaction_def sqlite3_begin_def split: option.splits)

lemma rollback_open:
  "db_txn db = Some (rows, seq) \<Longrightarrow>
   rmbrl_db_rollback_transaction db v =
     (0, db\<lparr>db_rows := rows, db_seq := seq, db_txn := None, db_trace := db_trace db @ [SQL_ROLLBACK]\<rparr>,
      if v = RMBRL_VERB_VERBOSE then [rmbrl_log RMBRL_LOG_INFO ''Rollback transaction...\<newline>''] else [])"
  by (simp add: rmbrl_db_rollback_transaction_def sqlite3_rollback_def)

lemma select_limit_1_empty:
  "\<forall>r \<in> set (db_rows db). \<not> matches p r \<Longrightarrow>
   sqlite3_select_limit_1 p db = ([], db\<lparr>db_trace := db_trace db @ [SQL_SELECT_LIMIT_1 p]\<rparr>)"
  by (simp add: sqlite3_select_limit_1_def)

lemma column_int_fits: "- (2 ^ 31) \<le> v \<Longrightarrow> v < 2 ^ 31 \<Longrightarrow> sqlite3_column_int v = v"
  by (simp add: sqlite3_column_int_def)

lemma filter_by_distinct_id:
  assumes "distinct (map mem_id rows)" and "r \<in> set rows"
  shows "filter (\<lambda>x. mem_id x \<noteq> mem_id r) rows = filter (\<lambda>x. x \<noteq> r) rows"
proof (rule filter_cong [OF refl])
  fix x assume "x \<in> set rows"
  with assms show "(mem_id x \<noteq> mem_id r) = (x \<noteq> r)"
    by (auto simp: distinct_map inj_on_def)
qed

lemma filter_same_id:
  assumes "distinct (map mem_id rows)" and "r \<in> set rows"
  shows "filter (\<lambda>x. mem_id x = mem_id r) rows = [r]"
  using assms by (induction rows) (auto simp: filter_empty_conv image_iff)

lemma length_filter_neq:
  assumes "distinct rows" and "r \<in> set rows"
  shows "length (filter (\<lambda>x. x \<noteq> r) rows) + 1 = length rows"
proof -
  have keep: "\<And>xs. r \<notin> set xs \<Longrightarrow> filter (\<lambda>x. x \<noteq> r) xs = xs"
    by (simp add: filter_id_conv) blast
  show ?thesis using assms by (induction rows) (auto simp: keep)
qed

section \<open>clear without --all\<close>

lemma clear_latest_run:
  assumes "\<not> cmd_all cmd" and "check_project cmd = None" and "\<not> cmd_dry_run cmd"
    and ord: "order_by_created_at_desc (filter (matches (cmd_project cmd)) (db_rows db)) = r # rs"
    and dist: "distinct (map mem_id (db_rows db))"
    and fits: "- (2 ^ 31) \<le> mem_id r" "mem_id r < 2 ^ 31" "mem_id r \<noteq> - 1"
  shows "rmbrl_command_clear cmd db =
           (0, db\<lparr>db_rows := filter (\<lambda>x. x \<noteq> r) (db_rows db),
                   db_trace := db_trace db @
                     [SQL_SELECT_LIMIT_1 (cmd_project cmd), SQL_DELETE_ID (mem_id r)]\<rparr>,
            query_log cmd (SQL_SELECT_LIMIT_1 (cmd_project cmd)) @
            (if cmd_verbosity cmd = RMBRL_VERB_VERBOSE
             then [rmbrl_log RMBRL_LOG_INFO ''Found Memory:\<newline>'', row_line True r] else []) @
            query_log cmd (SQL_DELETE_ID (mem_id r)) @
            (if cmd_verbosity cmd \<noteq> RMBRL_VERB_SILENT
             then [rmbrl_log RMBRL_LOG_INFO ''Forgotten Memories:\<newline>''] else []) @
            [row_line (cmd_verbosity cmd = RMBRL_VERB_VERBOSE) r])"
proof -
  let ?p = "cmd_project cmd"
  from order_by_head_latest [OF ord] have r_in: "r \<in> set (db_rows db)" by auto
  have id: "sqlite3_column_int (mem_id r) = mem_id r" using fits by (simp add: column_int_fits)
  have res: "clear_resolve cmd db =
       Inr (mem_id r, db\<lparr>db_trace := db_trace db @ [SQL_SELECT_LIMIT_1 ?p]\<rparr>,
            query_log cmd (SQL_SELECT_LIMIT_1 ?p) @
            (if cmd_verbosity cmd = RMBRL_VERB_VERBOSE
             then [rmbrl_log RMBRL_LOG_INFO ''Found Memory:\<newline>'', row_line True r] else []))"
    using assms(1) ord id by (simp add: clear_resolve_def sqlite3_select_limit_1_def)
  have del: "clear_delete cmd (mem_id r) (db\<lparr>db_trace := db_trace db @ [SQL_SELECT_LIMIT_1 ?p]\<rparr>) =
       (0, db\<lparr>db_rows := filter (\<lambda>x. x \<noteq> r) (db_rows db),
               db_trace := db_trace db @ [SQL_SELECT_LIMIT_1 ?p, SQL_DELETE_ID (mem_id r)]\<rparr>,
        query_log cmd (SQL_DELETE_ID (mem_id r)) @
        (if cmd_verbosity cmd \<noteq> RMBRL_VERB_SILENT
         then [rmbrl_log RMBRL_LOG_INFO ''Forgotten Memories:\<newline>''] else []) @
        [row_line (cmd_verbosity cmd = RMBRL_VERB_VERBOSE) r])"
    using assms(3) fits(3) filter_by_distinct_id [OF dist r_in] filter_same_id [OF dist r_in]
    by (simp add: clear_delete_def sqlite3_delete_id_def)
  show ?thesis
    using assms(2,3) by (simp add: rmbrl_command_clear_def res del)
qed

lemma clear_latest_dry_run:
  assumes "\<not> cmd_all cmd" and "check_project cmd = None" and "cmd_dry_run cmd"
    and "db_txn db = None"
    and ord: "order_by_created_at_desc (filter (matches (cmd_project cmd)) (db_rows db)) = r # rs"
    and fits: "- (2 ^ 31) \<le> mem_id r" "mem_id r < 2 ^ 31" "mem_id r \<noteq> - 1"
  shows "\<exists>db' out.
           rmbrl_command_clear cmd db = (0, db', out) \<and>
           db_rows db' = db_rows db \<and> db_seq db' = db_seq db \<and> db_txn db' = None \<and>
           db_trace db' = db_trace db @
             [SQL_BEGIN, SQL_SELECT_LIMIT_1 (cmd_project cmd), SQL_DELETE_ID (mem_id r), SQL_ROLLBACK]"
proof -
  let ?p = "cmd_project cmd"
  let ?db1 = "db\<lparr>db_txn := Some (db_rows db, db_seq db), db_trace := db_trace db @ [SQL_BEGIN]\<rparr>"
  let ?db2 = "db\<lparr>db_txn := Some (db_rows db, db_seq db),
                  db_trace := db_trace db @ [SQL_BEGIN, SQL_SELECT_LIMIT_1 ?p]\<rparr>"
  have id: "sqlite3_column_int (mem_id r) = mem_id r" using fits by (simp add: column_int_fits)
  have "\<exists>out2. clear_resolve cmd ?db1 = Inr (mem_id r, ?db2, out2)"
    using assms(1) ord id by (simp add: clear_resolve_def sqlite3_select_limit_1_def)
  then obtain out2 where res: "clear_resolve cmd ?db1 = Inr (mem_id r, ?db2, out2)" ..
  have "\<exists>db' out3. clear_delete cmd (mem_id r) ?db2 = (0, db', out3) \<and>
       db_rows db' = db_rows db \<and> db_seq db' = db_seq db \<and> db_txn db' = None \<and>
       db_trace db' = db_trace db @
         [SQL_BEGIN, SQL_SELECT_LIMIT_1 ?p, SQL_DELETE_ID (mem_id r), SQL_ROLLBACK]"
    using assms(3) fits(3)
    by (simp add: clear_delete_def sqlite3_delete_id_def rollback_open)
  then obtain db' out3 where del: "clear_delete cmd (mem_id r) ?db2 = (0, db', out3)"
    and keep: "db_rows db' = db_rows db" "db_seq db' = db_seq db" "db_txn db' = None"
      "db_trace db' = db_trace db @
         [SQL_BEGIN, SQL_SELECT_LIMIT_1 ?p, SQL_DELETE_ID (mem_id r), SQL_ROLLBACK]"
    by blast
  have "\<exists>out. rmbrl_command_clear cmd db = (0, db', out)"
    using assms(2,3,4) by (simp add: rmbrl_command_clear_def begin_cases res del)
  with keep show ?thesis by blast
qed

text \<open>
  C1 (as amended). Let \<open>all\<close> be off, the project filter pass the length check, at least
  one row match the filter, and the row identifiers be distinct, each within the range of
  a C \<^verbatim>\<open>int\<close> and different from \<open>-1\<close>. Then there is a row \<open>r\<close> that matches the filter
  and whose \<open>created_at\<close> is highest among the matching rows, and \<^verbatim>\<open>clear\<close> acts on it
  alone. Without \<open>dry_run\<close>, \<^verbatim>\<open>clear\<close> returns 0, the statements executed are the
  \<^verbatim>\<open>SELECT ... ORDER BY created_at DESC LIMIT 1\<close> and the \<^verbatim>\<open>DELETE\<close> by the identifier
  of \<open>r\<close>, and the table afterwards is the table before without \<open>r\<close>, one row shorter.
  With \<open>dry_run\<close> and no transaction open, \<^verbatim>\<open>clear\<close> returns 0, the statements executed
  are \<^verbatim>\<open>BEGIN\<close>, the same \<^verbatim>\<open>SELECT\<close>, the \<^verbatim>\<open>DELETE\<close> by the identifier of \<open>r\<close> and
  \<^verbatim>\<open>ROLLBACK\<close>, the table and the sequence are as before, and no transaction is left
  open.
\<close>

theorem clear_removes_latest:
  assumes "\<not> cmd_all cmd" and "check_project cmd = None"
    and "\<exists>r \<in> set (db_rows db). matches (cmd_project cmd) r"
    and "distinct (map mem_id (db_rows db))"
    and "\<forall>r \<in> set (db_rows db). - (2 ^ 31) \<le> mem_id r \<and> mem_id r < 2 ^ 31 \<and> mem_id r \<noteq> - 1"
  shows "\<exists>r out db'.
           r \<in> set (db_rows db) \<and> matches (cmd_project cmd) r \<and>
           (\<forall>x \<in> set (db_rows db). matches (cmd_project cmd) x \<longrightarrow> mem_created_at x \<le> mem_created_at r) \<and>
           length (filter (\<lambda>x. x \<noteq> r) (db_rows db)) + 1 = length (db_rows db) \<and>
           (\<not> cmd_dry_run cmd \<longrightarrow>
              rmbrl_command_clear cmd db =
                (0, db\<lparr>db_rows := filter (\<lambda>x. x \<noteq> r) (db_rows db),
                        db_trace := db_trace db @
                          [SQL_SELECT_LIMIT_1 (cmd_project cmd), SQL_DELETE_ID (mem_id r)]\<rparr>,
                 out)) \<and>
           (cmd_dry_run cmd \<and> db_txn db = None \<longrightarrow>
              rmbrl_command_clear cmd db = (0, db', out) \<and>
              db_rows db' = db_rows db \<and> db_seq db' = db_seq db \<and> db_txn db' = None \<and>
              db_trace db' = db_trace db @
                [SQL_BEGIN, SQL_SELECT_LIMIT_1 (cmd_project cmd), SQL_DELETE_ID (mem_id r),
                 SQL_ROLLBACK])"
proof -
  let ?p = "cmd_project cmd"
  let ?m = "filter (matches ?p) (db_rows db)"
  from assms(3) have "?m \<noteq> []" by (auto simp: filter_empty_conv)
  then obtain r rs where ord: "order_by_created_at_desc ?m = r # rs"
    by (cases "order_by_created_at_desc ?m") (auto simp: order_by_Nil)
  from order_by_head_latest [OF ord]
  have r_in: "r \<in> set (db_rows db)" and r_m: "matches ?p r"
    and r_max: "\<forall>x \<in> set (db_rows db). matches ?p x \<longrightarrow> mem_created_at x \<le> mem_created_at r"
    by auto
  from r_in assms(5) have fits: "- (2 ^ 31) \<le> mem_id r" "mem_id r < 2 ^ 31" "mem_id r \<noteq> - 1"
    by auto
  have len: "length (filter (\<lambda>x. x \<noteq> r) (db_rows db)) + 1 = length (db_rows db)"
    using assms(4) r_in by (intro length_filter_neq) (auto simp: distinct_map)
  show ?thesis
  proof (cases "cmd_dry_run cmd")
    case False
    note run = clear_latest_run [OF assms(1,2) False ord assms(4) fits]
    show ?thesis
      apply (rule exI [of _ r])
      apply (rule exI)
      apply (rule exI [of _ db])
      using r_in r_m r_max len False run by simp
  next
    case True
    show ?thesis
    proof (cases "db_txn db = None")
      case txn: True
      from clear_latest_dry_run [OF assms(1,2) True txn ord fits] obtain db' out where
        run: "rmbrl_command_clear cmd db = (0, db', out)" "db_rows db' = db_rows db"
        "db_seq db' = db_seq db" "db_txn db' = None"
        "db_trace db' = db_trace db @
           [SQL_BEGIN, SQL_SELECT_LIMIT_1 ?p, SQL_DELETE_ID (mem_id r), SQL_ROLLBACK]"
        by blast
      show ?thesis
        apply (rule exI [of _ r])
        apply (rule exI [of _ out])
        apply (rule exI [of _ db'])
        using r_in r_m r_max len True run by simp
    next
      case False
      show ?thesis
        apply (rule exI [of _ r])
        apply (rule exI [of _ "[]"])
        apply (rule exI [of _ db])
        using r_in r_m r_max len True False by auto
    qed
  qed
qed

theorem clear_removes_latest_witness:
  "fst (rmbrl_command_clear (command RMBRL_CMD_CLEAR (Some ''P'') None)
          (store [row 1 ''a'' ''P'' ''2025-01-01 10:00:00'',
                  row 2 ''b'' ''P'' ''2025-01-01 10:00:07'',
                  row 3 ''c'' ''R'' ''2025-01-01 10:00:09''] ''2025-01-01 10:00:10'')) = 0 \<and>
   length (db_rows (fst (snd (rmbrl_command_clear (command RMBRL_CMD_CLEAR (Some ''P'') None)
          (store [row 1 ''a'' ''P'' ''2025-01-01 10:00:00'',
                  row 2 ''b'' ''P'' ''2025-01-01 10:00:07'',
                  row 3 ''c'' ''R'' ''2025-01-01 10:00:09''] ''2025-01-01 10:00:10''))))) + 1 = 3 \<and>
   fst (rmbrl_command_clear ((command RMBRL_CMD_CLEAR (Some ''P'') None)\<lparr>cmd_dry_run := True\<rparr>)
          (store [row 1 ''a'' ''P'' ''2025-01-01 10:00:00'',
                  row 2 ''b'' ''P'' ''2025-01-01 10:00:07'',
                  row 3 ''c'' ''R'' ''2025-01-01 10:00:09''] ''2025-01-01 10:00:10'')) = 0 \<and>
   length (db_rows (fst (snd (rmbrl_command_clear
          ((command RMBRL_CMD_CLEAR (Some ''P'') None)\<lparr>cmd_dry_run := True\<rparr>)
          (store [row 1 ''a'' ''P'' ''2025-01-01 10:00:00'',
                  row 2 ''b'' ''P'' ''2025-01-01 10:00:07'',
                  row 3 ''c'' ''R'' ''2025-01-01 10:00:09''] ''2025-01-01 10:00:10''))))) = 3"
proof -
  let ?cmd = "command RMBRL_CMD_CLEAR (Some ''P'') None"
  let ?dry = "(command RMBRL_CMD_CLEAR (Some ''P'') None)\<lparr>cmd_dry_run := True\<rparr>"
  let ?db = "store [row 1 ''a'' ''P'' ''2025-01-01 10:00:00'',
                  row 2 ''b'' ''P'' ''2025-01-01 10:00:07'',
                  row 3 ''c'' ''R'' ''2025-01-01 10:00:09''] ''2025-01-01 10:00:10''"
  have h1: "\<not> cmd_all ?cmd" "\<not> cmd_all ?dry"
    and h2: "check_project ?cmd = None" "check_project ?dry = None"
    by (simp_all add: command_def check_project_def)
  have h3: "\<exists>r \<in> set (db_rows ?db). matches (cmd_project ?cmd) r"
    "\<exists>r \<in> set (db_rows ?db). matches (cmd_project ?dry) r"
    by (simp_all add: command_def store_def row_def matches_def)
  have h4: "distinct (map mem_id (db_rows ?db))"
    by (simp add: store_def row_def)
  have h5: "\<forall>r \<in> set (db_rows ?db). - (2 ^ 31) \<le> mem_id r \<and> mem_id r < 2 ^ 31 \<and> mem_id r \<noteq> - 1"
    by (simp add: store_def row_def)
  have f: "length (db_rows ?db) = 3" "\<not> cmd_dry_run ?cmd" "cmd_dry_run ?dry" "db_txn ?db = None"
    by (simp_all add: store_def command_def)
  from clear_removes_latest [OF h1(1) h2(1) h3(1) h4 h5] f(1,2)
  have a: "fst (rmbrl_command_clear ?cmd ?db) = 0 \<and>
      length (db_rows (fst (snd (rmbrl_command_clear ?cmd ?db)))) + 1 = 3"
    by auto
  from clear_removes_latest [OF h1(2) h2(2) h3(2) h4 h5] f(1,3,4)
  have b: "fst (rmbrl_command_clear ?dry ?db) = 0 \<and>
      length (db_rows (fst (snd (rmbrl_command_clear ?dry ?db)))) = 3"
    by auto
  from a b show ?thesis by simp
qed

text \<open>
  As the claim is worded (for every store state and every filter) it fails, and each
  condition above is needed. On the empty store \<^verbatim>\<open>clear\<close> returns 1 after the
  \<^verbatim>\<open>SELECT\<close> and removes nothing. On a dry run it returns 0 with the row still in the
  table. The identifier is read into a C \<^verbatim>\<open>int\<close> (line 462) in which \<open>-1\<close> stands for
  \<open>no identifier\<close> (lines 426, 483): when the newest row has the identifier \<open>-1\<close>,
  \<^verbatim>\<open>clear\<close> deletes every matching row, here both; when the newest row has the
  identifier 4294967297, which is read as 1, \<^verbatim>\<open>clear\<close> deletes the older row with the
  identifier 1 and keeps the newest. With a filter of 257 bytes \<^verbatim>\<open>clear\<close> returns 1 and
  removes nothing, although a row carries that project.
\<close>

theorem clear_removes_latest_counterexample:
  "rmbrl_command_clear (command RMBRL_CMD_CLEAR None None) (store [] ''2025-01-01 10:00:00'') =
     (1, (store [] ''2025-01-01 10:00:00'')\<lparr>db_trace := [SQL_SELECT_LIMIT_1 None]\<rparr>,
      [rmbrl_log RMBRL_LOG_ERROR ''Failed to remember memory to delete: not an error\<newline>'']) \<and>
   fst (rmbrl_command_clear ((command RMBRL_CMD_CLEAR None None)\<lparr>cmd_dry_run := True\<rparr>)
          (store [row 1 ''a'' [] ''2025-01-01 10:00:00''] ''2025-01-01 10:00:10'')) = 0 \<and>
   db_rows (fst (snd (rmbrl_command_clear ((command RMBRL_CMD_CLEAR None None)\<lparr>cmd_dry_run := True\<rparr>)
          (store [row 1 ''a'' [] ''2025-01-01 10:00:00''] ''2025-01-01 10:00:10'')))) =
     [row 1 ''a'' [] ''2025-01-01 10:00:00''] \<and>
   fst (rmbrl_command_clear (command RMBRL_CMD_CLEAR None None)
          (store [row 1 ''a'' [] ''2025-01-01 10:00:00'', row (- 1) ''b'' [] ''2025-01-01 10:00:07'']
             ''2025-01-01 10:00:10'')) = 0 \<and>
   db_rows (fst (snd (rmbrl_command_clear (command RMBRL_CMD_CLEAR None None)
          (store [row 1 ''a'' [] ''2025-01-01 10:00:00'', row (- 1) ''b'' [] ''2025-01-01 10:00:07'']
             ''2025-01-01 10:00:10'')))) = [] \<and>
   fst (rmbrl_command_clear (command RMBRL_CMD_CLEAR None None)
          (store [row 1 ''a'' [] ''2025-01-01 10:00:00'', row 4294967297 ''b'' [] ''2025-01-01 10:00:07'']
             ''2025-01-01 10:00:10'')) = 0 \<and>
   db_rows (fst (snd (rmbrl_command_clear (command RMBRL_CMD_CLEAR None None)
          (store [row 1 ''a'' [] ''2025-01-01 10:00:00'', row 4294967297 ''b'' [] ''2025-01-01 10:00:07'']
             ''2025-01-01 10:00:10'')))) = [row 4294967297 ''b'' [] ''2025-01-01 10:00:07''] \<and>
   fst (rmbrl_command_clear (command RMBRL_CMD_CLEAR (Some (replicate 257 (CHR ''p''))) None)
          (store [row 1 ''a'' (replicate 257 (CHR ''p'')) ''2025-01-01 10:00:00'']
             ''2025-01-01 10:00:10'')) = 1 \<and>
   db_rows (fst (snd (rmbrl_command_clear (command RMBRL_CMD_CLEAR (Some (replicate 257 (CHR ''p''))) None)
          (store [row 1 ''a'' (replicate 257 (CHR ''p'')) ''2025-01-01 10:00:00'']
             ''2025-01-01 10:00:10'')))) =
     [row 1 ''a'' (replicate 257 (CHR ''p'')) ''2025-01-01 10:00:00'']"
proof -
  have long: "rmbrl_command_clear (command RMBRL_CMD_CLEAR (Some (replicate 257 (CHR ''p''))) None)
          (store [row 1 ''a'' (replicate 257 (CHR ''p'')) ''2025-01-01 10:00:00'']
             ''2025-01-01 10:00:10'') =
      (1, store [row 1 ''a'' (replicate 257 (CHR ''p'')) ''2025-01-01 10:00:00'']
             ''2025-01-01 10:00:10'',
       [rmbrl_log RMBRL_LOG_ERROR
          (''Project '' @ dquote @ replicate 257 (CHR ''p'') @ dquote @
           '' exceeds char limit of 256 bytes.\<newline>'')])"
    by (simp add: rmbrl_command_clear_def check_project_def command_def)
  have rows: "db_rows (store [row 1 ''a'' (replicate 257 (CHR ''p'')) ''2025-01-01 10:00:00'']
             ''2025-01-01 10:00:10'') = [row 1 ''a'' (replicate 257 (CHR ''p'')) ''2025-01-01 10:00:00'']"
    by (simp add: store_def)
  show ?thesis
    unfolding long
    by (simp add: rows)
       (simp add: command_def store_def row_def rmbrl_command_clear_def check_project_def
                clear_resolve_def clear_delete_def sqlite3_select_limit_1_def query_log_def
                sqlite3_delete_id_def sqlite3_delete_def sqlite3_column_int_def matches_def
                begin_cases rollback_open Let_def)
qed

text \<open>
  C4. When \<open>all\<close> is off and no row matches the project filter, \<^verbatim>\<open>clear\<close> returns 1,
  the table and the sequence are as before (also after the session is closed), and no
  \<^verbatim>\<open>DELETE\<close> is among the statements executed. When the filter passes the length check
  and no transaction was open, the statements executed are the \<^verbatim>\<open>SELECT ... LIMIT 1\<close>
  (after \<^verbatim>\<open>BEGIN\<close> on a dry run) and nothing else, and the last thing written is the
  error report.
\<close>

theorem clear_without_match_fails:
  assumes "\<not> cmd_all cmd" and "\<forall>r \<in> set (db_rows db). \<not> matches (cmd_project cmd) r"
  shows "\<exists>db' out ts.
           rmbrl_command_clear cmd db = (1, db', out) \<and>
           db_rows db' = db_rows db \<and> db_seq db' = db_seq db \<and>
           db_trace db' = db_trace db @ ts \<and> (\<forall>q \<in> set ts. \<not> is_delete q) \<and>
           (db_txn db = None \<longrightarrow> db_rows (sqlite3_close db') = db_rows db) \<and>
           (check_project cmd = None \<and> db_txn db = None \<longrightarrow>
              ts = (if cmd_dry_run cmd then [SQL_BEGIN] else []) @ [SQL_SELECT_LIMIT_1 (cmd_project cmd)] \<and>
              last out = rmbrl_log RMBRL_LOG_ERROR ''Failed to remember memory to delete: not an error\<newline>'')"
proof (cases "check_project cmd")
  case (Some e)
  then show ?thesis
    by (simp add: rmbrl_command_clear_def sqlite3_close_def split: option.splits)
next
  case None
  show ?thesis
  proof (cases "cmd_dry_run cmd \<and> db_txn db \<noteq> None")
    case True
    then show ?thesis using None
      by (auto simp: rmbrl_command_clear_def begin_cases sqlite3_close_def)
  next
    case False
    then show ?thesis using None assms
      by (auto simp: rmbrl_command_clear_def begin_cases clear_resolve_def select_limit_1_empty
                     sqlite3_close_def is_delete_def)
  qed
qed

theorem clear_without_match_fails_witness:
  "\<exists>db' out.
     rmbrl_command_clear (command RMBRL_CMD_CLEAR (Some ''P'') None)
       (store [row 1 ''a'' ''R'' ''2025-01-01 10:00:00''] ''2025-01-01 10:00:10'') = (1, db', out) \<and>
     db_rows db' = [row 1 ''a'' ''R'' ''2025-01-01 10:00:00''] \<and>
     db_trace db' = [SQL_SELECT_LIMIT_1 (Some ''P'')]"
proof -
  let ?cmd = "command RMBRL_CMD_CLEAR (Some ''P'') None"
  let ?db = "store [row 1 ''a'' ''R'' ''2025-01-01 10:00:00''] ''2025-01-01 10:00:10''"
  have h1: "\<not> cmd_all ?cmd" by (simp add: command_def)
  have h2: "\<forall>r \<in> set (db_rows ?db). \<not> matches (cmd_project ?cmd) r"
    by (simp add: command_def store_def row_def matches_def)
  have e: "check_project ?cmd = None \<and> db_txn ?db = None \<and> \<not> cmd_dry_run ?cmd"
    by (simp add: command_def check_project_def store_def)
  have f: "db_rows ?db = [row 1 ''a'' ''R'' ''2025-01-01 10:00:00'']" "db_trace ?db = []"
    "cmd_project ?cmd = Some ''P''"
    by (simp_all add: store_def command_def)
  from clear_without_match_fails [OF h1 h2] e show ?thesis
    unfolding f by auto
qed

section \<open>add\<close>

text \<open>
  C3. With \<open>dry_run\<close> set and a task present, \<^verbatim>\<open>add\<close> returns with the table, the
  sequence and the transaction state as they were. When the task and the project pass the
  length checks and no transaction was open, it returns 0 and the statements executed are
  \<^verbatim>\<open>BEGIN\<close>, the \<^verbatim>\<open>INSERT\<close> and \<^verbatim>\<open>ROLLBACK\<close>, in this order.
\<close>

theorem add_dry_run_unchanged:
  assumes "cmd_dry_run cmd" and "cmd_task cmd = Some t"
  shows "\<exists>rc db' out.
           rmbrl_command_add cmd db = Some (rc, db', out) \<and>
           db_rows db' = db_rows db \<and> db_seq db' = db_seq db \<and> db_txn db' = db_txn db \<and>
           (length t \<le> 256 \<and> check_project cmd = None \<and> db_txn db = None \<longrightarrow>
              rc = 0 \<and>
              db_trace db' = db_trace db @
                [SQL_BEGIN, SQL_INSERT t (case cmd_project cmd of None \<Rightarrow> [] | Some p \<Rightarrow> p), SQL_ROLLBACK])"
  using assms
  by (cases "db_txn db")
     (auto simp: rmbrl_command_add_def begin_cases rollback_open sqlite3_insert_def Let_def
           split: option.splits)

theorem add_dry_run_unchanged_witness:
  "\<exists>rc db' out.
     rmbrl_command_add ((command RMBRL_CMD_ADD None (Some ''X''))\<lparr>cmd_dry_run := True\<rparr>)
       (store [row 1 ''a'' [] ''2025-01-01 10:00:00''] ''2025-01-01 10:00:10'') = Some (rc, db', out) \<and>
     rc = 0 \<and> db_rows db' = [row 1 ''a'' [] ''2025-01-01 10:00:00''] \<and>
     db_trace db' = [SQL_BEGIN, SQL_INSERT ''X'' [], SQL_ROLLBACK]"
proof -
  let ?cmd = "(command RMBRL_CMD_ADD None (Some ''X''))\<lparr>cmd_dry_run := True\<rparr>"
  let ?db = "store [row 1 ''a'' [] ''2025-01-01 10:00:00''] ''2025-01-01 10:00:10''"
  have h1: "cmd_dry_run ?cmd" and h2: "cmd_task ?cmd = Some ''X''"
    by (simp_all add: command_def)
  have e: "length ''X'' \<le> 256 \<and> check_project ?cmd = None \<and> db_txn ?db = None"
    by (simp add: command_def check_project_def store_def)
  have f: "db_rows ?db = [row 1 ''a'' [] ''2025-01-01 10:00:00'']" "db_trace ?db = []"
    "cmd_project ?cmd = None"
    by (simp_all add: store_def command_def)
  from add_dry_run_unchanged [OF h1 h2, of ?db] e show ?thesis
    unfolding f by auto
qed

text \<open>
  C5. A task longer than 256 bytes makes \<^verbatim>\<open>add\<close> return 1 with the session untouched
  (no statement executed, no row added); the one thing written is the error report, which
  names the task. With a task within the limit, a project longer than 256 bytes does the
  same, and the report names the project.
\<close>

theorem add_rejects_oversized:
  "(cmd_task cmd = Some t \<and> 256 < length t \<longrightarrow>
      rmbrl_command_add cmd db =
        Some (1, db, [rmbrl_log RMBRL_LOG_ERROR
          (''Task '' @ dquote @ t @ dquote @ '' exceeds char limit of 256 bytes.\<newline>'')])) \<and>
   (cmd_task cmd = Some t \<and> length t \<le> 256 \<and> cmd_project cmd = Some p \<and> 256 < length p \<longrightarrow>
      rmbrl_command_add cmd db =
        Some (1, db, [rmbrl_log RMBRL_LOG_ERROR
          (''Project '' @ dquote @ p @ dquote @ '' exceeds char limit of 256 bytes.\<newline>'')]))"
  by (simp add: rmbrl_command_add_def check_project_def)

theorem add_rejects_oversized_witness:
  "rmbrl_command_add (command RMBRL_CMD_ADD None (Some (replicate 257 (CHR ''x''))))
       (store [] ''2025-01-01 10:00:00'') =
     Some (1, store [] ''2025-01-01 10:00:00'',
           [rmbrl_log RMBRL_LOG_ERROR
              (''Task '' @ dquote @ replicate 257 (CHR ''x'') @ dquote @
               '' exceeds char limit of 256 bytes.\<newline>'')]) \<and>
   rmbrl_command_add (command RMBRL_CMD_ADD (Some (replicate 257 (CHR ''y''))) (Some ''t''))
       (store [] ''2025-01-01 10:00:00'') =
     Some (1, store [] ''2025-01-01 10:00:00'',
           [rmbrl_log RMBRL_LOG_ERROR
              (''Project '' @ dquote @ replicate 257 (CHR ''y'') @ dquote @
               '' exceeds char limit of 256 bytes.\<newline>'')])"
  using add_rejects_oversized [of "command RMBRL_CMD_ADD None (Some (replicate 257 (CHR ''x'')))"
          "replicate 257 (CHR ''x'')" "store [] ''2025-01-01 10:00:00''" "[]"]
        add_rejects_oversized [of "command RMBRL_CMD_ADD (Some (replicate 257 (CHR ''y''))) (Some ''t'')"
          "''t''" "store [] ''2025-01-01 10:00:00''" "replicate 257 (CHR ''y'')"]
  by (simp add: command_def)

section \<open>add, then peek\<close>

text \<open>
  C2 (as amended). Let the task \<open>t\<close> and the project \<open>P\<close> be at most 256 bytes long,
  \<open>Q\<close> differ from \<open>P\<close>, every row already tagged \<open>P\<close> be strictly older than the
  store's clock, and no row be tagged \<open>Q\<close>. Then after \<^verbatim>\<open>add\<close> with project \<open>P\<close> and
  task \<open>t\<close>, \<^verbatim>\<open>peek\<close> with filter \<open>P\<close> prints the header and the added row, and
  \<^verbatim>\<open>peek\<close> with filter \<open>Q\<close> prints no row.
\<close>

theorem add_then_peek:
  assumes "length t \<le> 256" and "length P \<le> 256" and "Q \<noteq> P"
    and "\<forall>r \<in> set (db_rows db). mem_project r = P \<longrightarrow> mem_created_at r < db_now db"
    and "\<forall>r \<in> set (db_rows db). mem_project r \<noteq> Q"
  shows "roundtrip db t P Q"
proof -
  let ?n = "\<lparr>mem_id = db_seq db + 1, mem_task = t, mem_project = P, mem_created_at = db_now db\<rparr>"
  have add: "rmbrl_command_add (command RMBRL_CMD_ADD (Some P) (Some t)) db =
      Some (0, sqlite3_insert t P db,
            [rmbrl_log RMBRL_LOG_INFO (dquote @ t @ dquote @ '' was added to your memory!\<newline>'')])"
    using assms(1,2)
    by (simp add: rmbrl_command_add_def command_def check_project_def query_log_def)
  have rows: "db_rows (sqlite3_insert t P db) = db_rows db @ [?n]"
    by (simp add: sqlite3_insert_def)
  have "\<forall>x \<in> set (filter (matches (Some P)) (db_rows db)). mem_created_at x < mem_created_at ?n"
    using assms(4) by (simp add: matches_def)
  then have selP: "order_by_created_at_desc (filter (matches (Some P)) (db_rows db @ [?n])) =
      ?n # order_by_created_at_desc (filter (matches (Some P)) (db_rows db))"
    using order_by_newest_last [of "filter (matches (Some P)) (db_rows db)" ?n]
    by (simp add: matches_def)
  have selQ: "filter (matches (Some Q)) (db_rows db @ [?n]) = []"
    using assms(3,5) by (auto simp: matches_def filter_empty_conv)
  have peekP: "snd (snd (rmbrl_command_peek (command RMBRL_CMD_PEEK (Some P) None) (sqlite3_insert t P db))) =
      [rmbrl_log RMBRL_LOG_INFO ''Currently Remembering:\<newline>'', row_line False ?n]"
    using assms(2) selP
    by (simp add: rmbrl_command_peek_def command_def check_project_def query_log_def
                  sqlite3_select_def rows)
  have peekQ: "snd (snd (rmbrl_command_peek (command RMBRL_CMD_PEEK (Some Q) None) (sqlite3_insert t P db))) =
      peek_without_rows (command RMBRL_CMD_PEEK (Some Q) None)"
    using selQ
    by (simp add: rmbrl_command_peek_def peek_without_rows_def command_def query_log_def
                  sqlite3_select_def rows split: option.splits)
  show ?thesis
    unfolding roundtrip_def by (simp add: add peekP peekQ)
qed

theorem add_then_peek_witness:
  "length ''task'' \<le> 256 \<and> length ''P'' \<le> 256 \<and> ''Q'' \<noteq> ''P'' \<and>
   roundtrip (store [row 1 ''old'' ''P'' ''2025-01-01 10:00:00'', row 2 ''other'' ''R'' ''2025-01-01 10:00:05'']
                ''2025-01-01 10:00:09'') ''task'' ''P'' ''Q''"
  using add_then_peek [of "''task''" "''P''" "''Q''"
      "store [row 1 ''old'' ''P'' ''2025-01-01 10:00:00'', row 2 ''other'' ''R'' ''2025-01-01 10:00:05'']
                ''2025-01-01 10:00:09''"]
  by (simp add: store_def row_def)

text \<open>
  As the claim is worded it fails in three ways: a project of 257 bytes is rejected by
  \<^verbatim>\<open>add\<close> and by \<^verbatim>\<open>peek\<close>, so the task is never printed; a row tagged \<open>Q\<close> that was
  in the store before is printed by \<^verbatim>\<open>peek\<close> with filter \<open>Q\<close>; and when an earlier row
  tagged \<open>P\<close> has the same \<open>created_at\<close> as the new one, \<^verbatim>\<open>peek\<close> prints the earlier
  row (the order of equal timestamps is the store's).
\<close>

theorem roundtrip_counterexample:
  "(length ''task'' \<le> 256 \<and> ''Q'' \<noteq> replicate 257 (CHR ''p'') \<and>
    \<not> roundtrip (store [] ''2025-01-01 10:00:00'') ''task'' (replicate 257 (CHR ''p'')) ''Q'') \<and>
   (length ''task'' \<le> 256 \<and> ''Q'' \<noteq> ''P'' \<and>
    \<not> roundtrip (store [row 1 ''old'' ''Q'' ''2025-01-01 10:00:00''] ''2025-01-01 10:00:09'') ''task'' ''P'' ''Q'') \<and>
   (length ''task'' \<le> 256 \<and> ''Q'' \<noteq> ''P'' \<and>
    \<not> roundtrip (store [row 1 ''first'' ''P'' ''2025-01-01 10:00:00''] ''2025-01-01 10:00:00'') ''task'' ''P'' ''Q'')"
proof -
  have neq: "''Q'' \<noteq> replicate 257 (CHR ''p'')"
  proof
    assume "''Q'' = replicate 257 (CHR ''p'')"
    then have "length ''Q'' = length (replicate 257 (CHR ''p''))" by (rule arg_cong)
    then show False by simp
  qed
  have a: "\<not> roundtrip (store [] ''2025-01-01 10:00:00'') ''task'' (replicate 257 (CHR ''p'')) ''Q''"
    by (simp add: roundtrip_def command_def rmbrl_command_add_def rmbrl_command_peek_def
                  check_project_def)
  have b: "\<not> roundtrip (store [row 1 ''old'' ''Q'' ''2025-01-01 10:00:00''] ''2025-01-01 10:00:09'') ''task'' ''P'' ''Q''"
    by (simp add: roundtrip_def command_def rmbrl_command_add_def rmbrl_command_peek_def
                  check_project_def query_log_def sqlite3_insert_def sqlite3_select_def
                  peek_without_rows_def matches_def store_def row_def Let_def)
  have c: "\<not> roundtrip (store [row 1 ''first'' ''P'' ''2025-01-01 10:00:00''] ''2025-01-01 10:00:00'') ''task'' ''P'' ''Q''"
    by (simp add: roundtrip_def command_def rmbrl_command_add_def rmbrl_command_peek_def
                  check_project_def query_log_def sqlite3_insert_def sqlite3_select_def
                  peek_without_rows_def matches_def store_def row_def row_line_def rmbrl_log_def
                  Let_def)
  from neq a b c show ?thesis by simp
qed

section \<open>Silent verbosity\<close>

lemma peek_loop_map:
  "peek_loop cmd rs =
     map (row_line (cmd_verbosity cmd = RMBRL_VERB_VERBOSE)) (if cmd_all cmd then rs else take 1 rs)"
  by (induction rs) auto






lemma check_project_verbosity [simp]:
  "check_project (cmd\<lparr>cmd_verbosity := v\<rparr>) = check_project cmd"
  by (simp add: check_project_def)






lemma filter_removed: "filter (\<lambda>r. r \<notin> set (filter (\<lambda>x. \<not> P x) xs)) xs = filter P xs"
  by (rule filter_cong) auto







section \<open>Argument scanning\<close>

lemma not_dash_first:
  assumes "byte_at t 0 \<noteq> CHR ''-''"
  shows "t \<noteq> CHR ''-'' # s" and "0 < n \<Longrightarrow> take n t \<noteq> CHR ''-'' # s"
proof -
  show "t \<noteq> CHR ''-'' # s" using assms by (cases t) (simp_all add: byte_at_def)
  show "0 < n \<Longrightarrow> take n t \<noteq> CHR ''-'' # s"
    using assms by (cases t; cases n) (simp_all add: byte_at_def)
qed

lemma not_dash_conds:
  assumes "byte_at t 0 \<noteq> CHR ''-''"
  shows "t \<noteq> ''--all''" "t \<noteq> ''-a''" "t \<noteq> ''--dry-run''" "t \<noteq> ''-n''" "t \<noteq> ''--verbose''"
    "t \<noteq> ''-v''" "t \<noteq> ''--silent''" "t \<noteq> ''-s''" "take 2 t \<noteq> ''-p''" "take 9 t \<noteq> ''--project''"
proof -
  show "t \<noteq> ''--all''" "t \<noteq> ''-a''" "t \<noteq> ''--dry-run''" "t \<noteq> ''-n''" "t \<noteq> ''--verbose''"
    "t \<noteq> ''-v''" "t \<noteq> ''--silent''" "t \<noteq> ''-s''"
    by (rule not_dash_first(1) [OF assms])+
  show "take 2 t \<noteq> ''-p''" by (rule not_dash_first(2) [OF assms]) simp
  show "take 9 t \<noteq> ''--project''" by (rule not_dash_first(2) [OF assms]) simp
qed

lemma scan_step_plain_task:
  assumes "byte_at t 0 \<noteq> CHR ''-''" and "cmd_function cmd = RMBRL_CMD_ADD" and "cmd_task cmd = None"
  shows "scan_step trailing t rest (cmd, ign) = Some ((cmd\<lparr>cmd_task := Some t\<rparr>, ign), False)"
  unfolding scan_step_def using assms not_dash_conds [OF assms(1)] by simp

lemma comma_separated_concat:
  "comma_separated xs = concat (tl (concat (map (\<lambda>x. ['', '', x]) xs)))"
  by (induction xs rule: comma_separated.induct) simp_all

lemma scan_step_all_flag:
  assumes "a = ''--all'' \<or> a = ''-a''"
  shows "scan_step trailing a rest (cmd, ign) =
           (if cmd_function cmd \<noteq> RMBRL_CMD_ADD
            then Some ((cmd\<lparr>cmd_all := True\<rparr>, ign), False)
            else Some ((cmd, ign @ [a]), False))"
proof -
  have 1: "scan_step trailing ''--all'' rest (cmd, ign) =
           (if cmd_function cmd \<noteq> RMBRL_CMD_ADD
            then Some ((cmd\<lparr>cmd_all := True\<rparr>, ign), False)
            else Some ((cmd, ign @ [''--all'']), False))"
    by (simp add: scan_step_def byte_at_def)
  have 2: "scan_step trailing ''-a'' rest (cmd, ign) =
           (if cmd_function cmd \<noteq> RMBRL_CMD_ADD
            then Some ((cmd\<lparr>cmd_all := True\<rparr>, ign), False)
            else Some ((cmd, ign @ [''-a'']), False))"
    by (simp add: scan_step_def byte_at_def)
  from assms 1 2 show ?thesis by blast
qed

lemma scan_step_add_keeps_case:
  "cmd_function cmd = RMBRL_CMD_ADD \<Longrightarrow>
   (case scan_step trailing arg rest (cmd, ign) of
      None \<Rightarrow> True
    | Some ((cmd', ign'), k) \<Rightarrow> cmd_function cmd' = RMBRL_CMD_ADD \<and> cmd_all cmd' = cmd_all cmd)"
  by (simp add: scan_step_def Let_def split: list.splits)

lemma scan_step_add_keeps:
  assumes "scan_step trailing arg rest (cmd, ign) = Some ((cmd', ign'), k)"
    and "cmd_function cmd = RMBRL_CMD_ADD"
  shows "cmd_function cmd' = RMBRL_CMD_ADD \<and> cmd_all cmd' = cmd_all cmd"
  using scan_step_add_keeps_case [OF assms(2), of trailing arg rest ign] assms(1) by simp

lemma scan_args_add_keeps:
  "scan_args trailing args st = Some st' \<Longrightarrow> cmd_function (fst st) = RMBRL_CMD_ADD \<Longrightarrow>
   cmd_function (fst st') = RMBRL_CMD_ADD \<and> cmd_all (fst st') = cmd_all (fst st)"
proof (induction trailing args st rule: scan_args.induct)
  case (1 trailing st)
  then show ?case by simp
next
  case (2 trailing arg rest st)
  obtain cmd ign where st: "st = (cmd, ign)" by (cases st)
  from "2.prems"(1) obtain st1 k where
    step: "scan_step trailing arg rest st = Some (st1, k)"
    and run: "scan_args trailing (if k then drop 1 rest else rest) st1 = Some st'"
    by (auto split: option.splits)
  obtain cmd1 ign1 where st1: "st1 = (cmd1, ign1)" by (cases st1)
  from step "2.prems"(2) have keep: "cmd_function cmd1 = RMBRL_CMD_ADD \<and> cmd_all cmd1 = cmd_all cmd"
    using scan_step_add_keeps [of trailing arg rest cmd ign cmd1 ign1 k] by (simp add: st st1)
  from "2.IH" [OF step refl run] keep show ?case by (simp add: st st1)
qed

text \<open>
  C8. For \<open>a\<close> one of \<^verbatim>\<open>--all\<close> and \<^verbatim>\<open>-a\<close>: the loop body sets \<open>all\<close> only when the
  function is not \<^verbatim>\<open>add\<close>; under \<^verbatim>\<open>add\<close> it leaves the command as it is and appends
  \<open>a\<close> to the ignored flags. So the arguments \<^verbatim>\<open>add a t\<close>, with \<open>t\<close> not starting with
  \<^verbatim>\<open>-\<close>, give the command with task \<open>t\<close> and \<open>all\<close> off and the ignored flags \<open>[a]\<close>, and
  \<^verbatim>\<open>main\<close> writes the warning naming \<open>a\<close> before it runs \<^verbatim>\<open>add\<close>. The warning is one
  line holding the ignored flags in their order, separated by a comma and a blank, written
  when the verbosity is not silent and the list is not empty; in silent mode nothing is
  written. Under \<^verbatim>\<open>add\<close> no argument list changes \<open>all\<close>.
\<close>

theorem add_ignores_all_flag:
  assumes "a = ''--all'' \<or> a = ''-a''"
  shows "scan_step trailing a rest (cmd, ign) =
           (if cmd_function cmd \<noteq> RMBRL_CMD_ADD
            then Some ((cmd\<lparr>cmd_all := True\<rparr>, ign), False)
            else Some ((cmd, ign @ [a]), False)) \<and>
         (byte_at t 0 \<noteq> CHR ''-'' \<longrightarrow>
            scan_args trailing [a, t] (command RMBRL_CMD_ADD None None, []) =
              Some (command RMBRL_CMD_ADD None (Some t), [a])) \<and>
         (byte_at t 0 \<noteq> CHR ''-'' \<longrightarrow>
            main [prog, ''add'', a, t] trailing (Inr path) file =
              (case rmbrl_command_add (command RMBRL_CMD_ADD None (Some t)) (sqlite3_create_table file) of
                 None \<Rightarrow> None
               | Some (rc, db', out) \<Rightarrow>
                   Some (rc, sqlite3_close db',
                         rmbrl_log RMBRL_LOG_WARNING (''Ignoring flags: '' @ a @ ''\<newline>'') # out))) \<and>
         (cmd_verbosity cmd \<noteq> RMBRL_VERB_SILENT \<and> ign \<noteq> [] \<longrightarrow>
            ignored_warning cmd ign =
              [rmbrl_log RMBRL_LOG_WARNING
                 (''Ignoring flags: '' @ concat (tl (concat (map (\<lambda>x. ['', '', x]) ign))) @ ''\<newline>'')]) \<and>
         (cmd_verbosity cmd = RMBRL_VERB_SILENT \<longrightarrow> ignored_warning cmd ign = []) \<and>
         (cmd_function cmd = RMBRL_CMD_ADD \<and> scan_args trailing args (cmd, ign) = Some (cmd', ign') \<longrightarrow>
            cmd_all cmd' = cmd_all cmd)"
proof (intro conjI impI)
  show "scan_step trailing a rest (cmd, ign) =
           (if cmd_function cmd \<noteq> RMBRL_CMD_ADD
            then Some ((cmd\<lparr>cmd_all := True\<rparr>, ign), False)
            else Some ((cmd, ign @ [a]), False))"
    using assms by (rule scan_step_all_flag)
next
  assume t: "byte_at t 0 \<noteq> CHR ''-''"
  have s1: "scan_step trailing a [t] (command RMBRL_CMD_ADD None None, []) =
      Some ((command RMBRL_CMD_ADD None None, [a]), False)"
    using scan_step_all_flag [OF assms, of trailing "[t]" "command RMBRL_CMD_ADD None None" "[]"]
    by (simp add: command_def)
  have s2: "scan_step trailing t [] (command RMBRL_CMD_ADD None None, [a]) =
      Some ((command RMBRL_CMD_ADD None (Some t), [a]), False)"
    using scan_step_plain_task [OF t, of "command RMBRL_CMD_ADD None None" trailing "[]" "[a]"]
    by (simp add: command_def)
  show scan: "scan_args trailing [a, t] (command RMBRL_CMD_ADD None None, []) =
      Some (command RMBRL_CMD_ADD None (Some t), [a])"
    by (simp add: s1 s2)
  have init: "\<lparr>cmd_function = RMBRL_CMD_ADD, cmd_verbosity = RMBRL_VERB_NORMAL, cmd_project = None,
               cmd_task = None, cmd_all = False, cmd_dry_run = False\<rparr> = command RMBRL_CMD_ADD None None"
    by (simp add: command_def)
  have warn: "ignored_warning (command RMBRL_CMD_ADD None (Some t)) [a] =
      [rmbrl_log RMBRL_LOG_WARNING (''Ignoring flags: '' @ a @ ''\<newline>'')]"
    by (simp add: ignored_warning_def command_def)
  have c: "cmd_function (command RMBRL_CMD_ADD None (Some t)) = RMBRL_CMD_ADD"
    "cmd_task (command RMBRL_CMD_ADD None (Some t)) = Some t"
    "cmd_verbosity (command RMBRL_CMD_ADD None (Some t)) = RMBRL_VERB_NORMAL"
    by (simp_all add: command_def)
  show "main [prog, ''add'', a, t] trailing (Inr path) file =
              (case rmbrl_command_add (command RMBRL_CMD_ADD None (Some t)) (sqlite3_create_table file) of
                 None \<Rightarrow> None
               | Some (rc, db', out) \<Rightarrow>
                   Some (rc, sqlite3_close db',
                         rmbrl_log RMBRL_LOG_WARNING (''Ignoring flags: '' @ a @ ''\<newline>'') # out))"
    by (simp add: main_def init scan warn c del: scan_args.simps split: option.splits)
next
  assume "cmd_verbosity cmd \<noteq> RMBRL_VERB_SILENT \<and> ign \<noteq> []"
  then show "ignored_warning cmd ign =
              [rmbrl_log RMBRL_LOG_WARNING
                 (''Ignoring flags: '' @ concat (tl (concat (map (\<lambda>x. ['', '', x]) ign))) @ ''\<newline>'')]"
    by (simp add: ignored_warning_def comma_separated_concat)
next
  assume "cmd_verbosity cmd = RMBRL_VERB_SILENT"
  then show "ignored_warning cmd ign = []" by (simp add: ignored_warning_def)
next
  assume "cmd_function cmd = RMBRL_CMD_ADD \<and> scan_args trailing args (cmd, ign) = Some (cmd', ign')"
  then show "cmd_all cmd' = cmd_all cmd"
    using scan_args_add_keeps [of trailing args "(cmd, ign)" "(cmd', ign')"] by simp
qed

theorem add_ignores_all_flag_witness:
  "main [''rmbrl'', ''add'', ''--all'', ''task''] [] (Inr ''rmbrl.db'') (store [] ''2025-01-01 10:00:00'') =
     Some (0, (store [] ''2025-01-01 10:00:00'')
                \<lparr>db_rows := [row 1 ''task'' [] ''2025-01-01 10:00:00''], db_seq := 1,
                  db_trace := [SQL_CREATE_TABLE, SQL_INSERT ''task'' []]\<rparr>,
           [Stderr ''[WARNING] Ignoring flags: --all\<newline>'',
            Stderr (''[INFO] '' @ dquote @ ''task'' @ dquote @ '' was added to your memory!\<newline>'')]) \<and>
   scan_args [] [''-a'', ''task'', ''--x''] (command RMBRL_CMD_ADD None None, []) =
     Some (command RMBRL_CMD_ADD None (Some ''task''), [''-a'', ''--x'']) \<and>
   ignored_warning (command RMBRL_CMD_ADD None (Some ''task'')) [''-a'', ''--x''] =
     [Stderr ''[WARNING] Ignoring flags: -a, --x\<newline>'']"
proof -
  have a1: "''--all'' = ''--all'' \<or> ''--all'' = ''-a''" by simp
  have t1: "byte_at ''task'' 0 \<noteq> CHR ''-''" by (simp add: byte_at_def)
  note th = add_ignores_all_flag [OF a1, of "[]" "[]" "command RMBRL_CMD_ADD None (Some ''task'')"
      "[''-a'', ''--x'']" "''task''" "''rmbrl''" "''rmbrl.db''" "store [] ''2025-01-01 10:00:00''"]
  note m = th [THEN conjunct2, THEN conjunct2, THEN conjunct1, rule_format, OF t1]
  have v: "cmd_verbosity (command RMBRL_CMD_ADD None (Some ''task'')) \<noteq> RMBRL_VERB_SILENT \<and>
      [''-a'', ''--x''] \<noteq> []" by (simp add: command_def)
  note w = th [THEN conjunct2, THEN conjunct2, THEN conjunct2, THEN conjunct1, rule_format, OF v]
  have r1: "main [''rmbrl'', ''add'', ''--all'', ''task''] [] (Inr ''rmbrl.db'') (store [] ''2025-01-01 10:00:00'') =
     Some (0, (store [] ''2025-01-01 10:00:00'')
                \<lparr>db_rows := [row 1 ''task'' [] ''2025-01-01 10:00:00''], db_seq := 1,
                  db_trace := [SQL_CREATE_TABLE, SQL_INSERT ''task'' []]\<rparr>,
           [Stderr ''[WARNING] Ignoring flags: --all\<newline>'',
            Stderr (''[INFO] '' @ dquote @ ''task'' @ dquote @ '' was added to your memory!\<newline>'')])"
    unfolding m
    by (simp add: rmbrl_command_add_def command_def check_project_def query_log_def
                  sqlite3_insert_def sqlite3_create_table_def sqlite3_close_def store_def row_def
                  rmbrl_log_def Let_def)
  have r2: "scan_args [] [''-a'', ''task'', ''--x''] (command RMBRL_CMD_ADD None None, []) =
     Some (command RMBRL_CMD_ADD None (Some ''task''), [''-a'', ''--x''])"
    by (simp add: scan_step_def command_def byte_at_def)
  have r3: "ignored_warning (command RMBRL_CMD_ADD None (Some ''task'')) [''-a'', ''--x''] =
     [Stderr ''[WARNING] Ignoring flags: -a, --x\<newline>'']"
    unfolding w by (simp add: rmbrl_log_def)
  from r1 r2 r3 show ?thesis by simp
qed

section \<open>The project flag\<close>

lemma scan_step_empty_attached:
  "scan_step trailing ''--project='' rest (cmd, ign) = Some ((cmd\<lparr>cmd_project := Some []\<rparr>, ign), False)"
  "scan_step trailing ''-p='' rest (cmd, ign) = Some ((cmd\<lparr>cmd_project := Some []\<rparr>, ign), False)"
  by (simp_all add: scan_step_def argv_mem_def byte_at_def cstr_at_def)

lemma takeWhile_cstr:
  "NUL \<notin> set s \<Longrightarrow> takeWhile (\<lambda>c. c \<noteq> NUL) (s @ NUL # xs) = s"
  by (induction s) auto

lemma scan_step_attached_long:
  assumes "NUL \<notin> set N"
  shows "scan_step trailing (''--project='' @ N) rest (cmd, ign) =
           Some ((cmd\<lparr>cmd_project := Some N\<rparr>, ign), False)"
  using assms by (simp add: scan_step_def argv_mem_def byte_at_def cstr_at_def takeWhile_cstr)

lemma scan_step_attached_short:
  assumes "NUL \<notin> set N"
  shows "scan_step trailing (''-p='' @ N) rest (cmd, ign) =
           Some ((cmd\<lparr>cmd_project := Some N\<rparr>, ign), False)"
  using assms by (simp add: scan_step_def argv_mem_def byte_at_def cstr_at_def takeWhile_cstr)

lemma scan_step_separate_long:
  "scan_step trailing ''--project'' rest (cmd, ign) =
     (case rest of
        [] \<Rightarrow> None
      | name # _ \<Rightarrow>
          if byte_at name 0 \<noteq> CHR ''-'' then Some ((cmd\<lparr>cmd_project := Some name\<rparr>, ign), True)
          else None)"
  by (simp add: scan_step_def argv_mem_def byte_at_def NUL_def)

lemma scan_step_separate_short:
  "byte_at (argv_mem (''-p'' # rest) trailing) 9 \<noteq> CHR ''='' \<Longrightarrow>
   scan_step trailing ''-p'' rest (cmd, ign) =
     (case rest of
        [] \<Rightarrow> None
      | name # _ \<Rightarrow>
          if byte_at name 0 \<noteq> CHR ''-'' then Some ((cmd\<lparr>cmd_project := Some name\<rparr>, ign), True)
          else None)"
  by (simp add: scan_step_def Let_def) (simp add: argv_mem_def byte_at_def NUL_def)

lemma project_forms_agree:
  assumes "NUL \<notin> set N" and "byte_at N 0 \<noteq> CHR ''-''"
  shows "scan_args trailing ((''--project='' @ N) # rest) (cmd, ign) =
           scan_args trailing rest (cmd\<lparr>cmd_project := Some N\<rparr>, ign)"
    and "scan_args trailing ((''-p='' @ N) # rest) (cmd, ign) =
           scan_args trailing rest (cmd\<lparr>cmd_project := Some N\<rparr>, ign)"
    and "scan_args trailing (''--project'' # N # rest) (cmd, ign) =
           scan_args trailing rest (cmd\<lparr>cmd_project := Some N\<rparr>, ign)"
    and "byte_at (argv_mem (''-p'' # N # rest) trailing) 9 \<noteq> CHR ''='' \<Longrightarrow>
         scan_args trailing (''-p'' # N # rest) (cmd, ign) =
           scan_args trailing rest (cmd\<lparr>cmd_project := Some N\<rparr>, ign)"
proof -
  show "scan_args trailing ((''--project='' @ N) # rest) (cmd, ign) =
           scan_args trailing rest (cmd\<lparr>cmd_project := Some N\<rparr>, ign)"
    by (simp only: scan_args.simps scan_step_attached_long [OF assms(1)] option.case prod.case if_False)
  show "scan_args trailing ((''-p='' @ N) # rest) (cmd, ign) =
           scan_args trailing rest (cmd\<lparr>cmd_project := Some N\<rparr>, ign)"
    by (simp only: scan_args.simps scan_step_attached_short [OF assms(1)] option.case prod.case if_False)
  show "scan_args trailing (''--project'' # N # rest) (cmd, ign) =
           scan_args trailing rest (cmd\<lparr>cmd_project := Some N\<rparr>, ign)"
    using assms(2) by (simp add: scan_step_separate_long)
  show "byte_at (argv_mem (''-p'' # N # rest) trailing) 9 \<noteq> CHR ''='' \<Longrightarrow>
         scan_args trailing (''-p'' # N # rest) (cmd, ign) =
           scan_args trailing rest (cmd\<lparr>cmd_project := Some N\<rparr>, ign)"
    using assms(2) by (simp add: scan_step_separate_short)
qed

lemma missing_project_name:
  assumes "rest = [] \<or> byte_at (hd rest) 0 = CHR ''-''"
  shows "scan_args trailing (''--project'' # rest) st = None"
    and "byte_at (argv_mem (''-p'' # rest) trailing) 9 \<noteq> CHR ''='' \<Longrightarrow>
         scan_args trailing (''-p'' # rest) st = None"
  using assms
  by (cases st; cases rest; simp add: scan_step_separate_long scan_step_separate_short)+

lemma main_missing_project_name:
  assumes "argv = prog # c # rest" and "c = ''add'' \<or> c = ''peek'' \<or> c = ''clear''"
    and "scan_args trailing rest
           (\<lparr>cmd_function = (if c = ''add'' then RMBRL_CMD_ADD
                              else if c = ''peek'' then RMBRL_CMD_PEEK else RMBRL_CMD_CLEAR),
             cmd_verbosity = RMBRL_VERB_NORMAL, cmd_project = None, cmd_task = None,
             cmd_all = False, cmd_dry_run = False\<rparr>, []) = None"
  shows "main argv trailing storage file =
           Some (1, file, [rmbrl_log RMBRL_LOG_ERROR ''Project flag provided but missing project name\<newline>''])"
  using assms(2,3) unfolding assms(1)
  by (auto simp: main_def simp del: scan_args.simps)

lemma matches_fun:
  "matches (Some n) = (\<lambda>r. mem_project r = n)" "matches None = (\<lambda>r. True)"
  by (rule ext, simp add: matches_def)+

lemma empty_project_parsed:
  "scan_step trailing ''--project='' rest (cmd, ign) =
     Some ((cmd\<lparr>cmd_project := Some []\<rparr>, ign), False) \<and>
   scan_step trailing ''-p='' rest (cmd, ign) =
     Some ((cmd\<lparr>cmd_project := Some []\<rparr>, ign), False) \<and>
   main [prog, ''peek'', ''--project=''] trailing (Inr path) file =
     (case rmbrl_command_peek (command RMBRL_CMD_PEEK (Some []) None) (sqlite3_create_table file) of
        (rc, db', out) \<Rightarrow> Some (rc, sqlite3_close db', out)) \<and>
   main [prog, ''clear'', ''-p=''] trailing (Inr path) file =
     (case rmbrl_command_clear (command RMBRL_CMD_CLEAR (Some []) None) (sqlite3_create_table file) of
        (rc, db', out) \<Rightarrow> Some (rc, sqlite3_close db', out)) \<and>
   rmbrl_command_peek ((command RMBRL_CMD_PEEK (Some []) None)\<lparr>cmd_all := True\<rparr>) db =
     (0, db\<lparr>db_trace := db_trace db @ [SQL_SELECT (Some [])]\<rparr>,
      rmbrl_log RMBRL_LOG_INFO ''Currently Remembering:\<newline>'' #
      map (row_line False) (order_by_created_at_desc (filter (\<lambda>r. mem_project r = []) (db_rows db)))) \<and>
   rmbrl_command_peek ((command RMBRL_CMD_PEEK None None)\<lparr>cmd_all := True\<rparr>) db =
     (0, db\<lparr>db_trace := db_trace db @ [SQL_SELECT None]\<rparr>,
      rmbrl_log RMBRL_LOG_INFO ''Currently Remembering:\<newline>'' #
      map (row_line False) (order_by_created_at_desc (db_rows db))) \<and>
   rmbrl_command_clear ((command RMBRL_CMD_CLEAR (Some []) None)\<lparr>cmd_all := True\<rparr>) db =
     (0, db\<lparr>db_rows := filter (\<lambda>r. mem_project r \<noteq> []) (db_rows db),
             db_trace := db_trace db @ [SQL_DELETE (Some [])]\<rparr>,
      rmbrl_log RMBRL_LOG_INFO ''Forgotten Memories:\<newline>'' #
      map (row_line False) (filter (\<lambda>r. mem_project r = []) (db_rows db))) \<and>
   rmbrl_command_clear ((command RMBRL_CMD_CLEAR None None)\<lparr>cmd_all := True\<rparr>) db =
     (0, db\<lparr>db_rows := [], db_trace := db_trace db @ [SQL_DELETE None]\<rparr>,
      rmbrl_log RMBRL_LOG_INFO ''Forgotten Memories:\<newline>'' #
      map (row_line False) (db_rows db)) \<and>
   snd (snd (rmbrl_command_peek (command RMBRL_CMD_PEEK (Some []) None)
               (store [row 1 ''a'' ''P'' ''2025-01-01 10:00:00''] ''2025-01-01 10:00:10''))) =
     [rmbrl_log RMBRL_LOG_INFO ''Currently Remembering:\<newline>''] \<and>
   snd (snd (rmbrl_command_peek (command RMBRL_CMD_PEEK None None)
               (store [row 1 ''a'' ''P'' ''2025-01-01 10:00:00''] ''2025-01-01 10:00:10''))) =
     [rmbrl_log RMBRL_LOG_INFO ''Currently Remembering:\<newline>'',
      row_line False (row 1 ''a'' ''P'' ''2025-01-01 10:00:00'')]"
proof (intro conjI)
  show "scan_step trailing ''--project='' rest (cmd, ign) =
     Some ((cmd\<lparr>cmd_project := Some []\<rparr>, ign), False)"
    by (rule scan_step_empty_attached)
  show "scan_step trailing ''-p='' rest (cmd, ign) =
     Some ((cmd\<lparr>cmd_project := Some []\<rparr>, ign), False)"
    by (rule scan_step_empty_attached)
  show "main [prog, ''peek'', ''--project=''] trailing (Inr path) file =
     (case rmbrl_command_peek (command RMBRL_CMD_PEEK (Some []) None) (sqlite3_create_table file) of
        (rc, db', out) \<Rightarrow> Some (rc, sqlite3_close db', out))"
    by (simp add: main_def scan_step_empty_attached ignored_warning_def command_def
             split: prod.splits)
  show "main [prog, ''clear'', ''-p=''] trailing (Inr path) file =
     (case rmbrl_command_clear (command RMBRL_CMD_CLEAR (Some []) None) (sqlite3_create_table file) of
        (rc, db', out) \<Rightarrow> Some (rc, sqlite3_close db', out))"
    by (simp add: main_def scan_step_empty_attached ignored_warning_def command_def
             split: prod.splits)
  show "rmbrl_command_peek ((command RMBRL_CMD_PEEK (Some []) None)\<lparr>cmd_all := True\<rparr>) db =
     (0, db\<lparr>db_trace := db_trace db @ [SQL_SELECT (Some [])]\<rparr>,
      rmbrl_log RMBRL_LOG_INFO ''Currently Remembering:\<newline>'' #
      map (row_line False) (order_by_created_at_desc (filter (\<lambda>r. mem_project r = []) (db_rows db))))"
    by (simp add: rmbrl_command_peek_def command_def check_project_def query_log_def
                  sqlite3_select_def peek_loop_map matches_fun)
  show "rmbrl_command_peek ((command RMBRL_CMD_PEEK None None)\<lparr>cmd_all := True\<rparr>) db =
     (0, db\<lparr>db_trace := db_trace db @ [SQL_SELECT None]\<rparr>,
      rmbrl_log RMBRL_LOG_INFO ''Currently Remembering:\<newline>'' #
      map (row_line False) (order_by_created_at_desc (db_rows db)))"
    by (simp add: rmbrl_command_peek_def command_def check_project_def query_log_def
                  sqlite3_select_def peek_loop_map matches_fun)
  show "rmbrl_command_clear ((command RMBRL_CMD_CLEAR (Some []) None)\<lparr>cmd_all := True\<rparr>) db =
     (0, db\<lparr>db_rows := filter (\<lambda>r. mem_project r \<noteq> []) (db_rows db),
             db_trace := db_trace db @ [SQL_DELETE (Some [])]\<rparr>,
      rmbrl_log RMBRL_LOG_INFO ''Forgotten Memories:\<newline>'' #
      map (row_line False) (filter (\<lambda>r. mem_project r = []) (db_rows db)))"
    by (simp add: rmbrl_command_clear_def command_def check_project_def query_log_def
                  clear_resolve_def clear_delete_def sqlite3_delete_def matches_fun)
  show "rmbrl_command_clear ((command RMBRL_CMD_CLEAR None None)\<lparr>cmd_all := True\<rparr>) db =
     (0, db\<lparr>db_rows := [], db_trace := db_trace db @ [SQL_DELETE None]\<rparr>,
      rmbrl_log RMBRL_LOG_INFO ''Forgotten Memories:\<newline>'' #
      map (row_line False) (db_rows db))"
    by (simp add: rmbrl_command_clear_def command_def check_project_def query_log_def
                  clear_resolve_def clear_delete_def sqlite3_delete_def matches_fun)
  show "snd (snd (rmbrl_command_peek (command RMBRL_CMD_PEEK (Some []) None)
               (store [row 1 ''a'' ''P'' ''2025-01-01 10:00:00''] ''2025-01-01 10:00:10''))) =
     [rmbrl_log RMBRL_LOG_INFO ''Currently Remembering:\<newline>'']"
    by (simp add: rmbrl_command_peek_def command_def check_project_def query_log_def
                  sqlite3_select_def matches_def store_def row_def)
  show "snd (snd (rmbrl_command_peek (command RMBRL_CMD_PEEK None None)
               (store [row 1 ''a'' ''P'' ''2025-01-01 10:00:00''] ''2025-01-01 10:00:10''))) =
     [rmbrl_log RMBRL_LOG_INFO ''Currently Remembering:\<newline>'',
      row_line False (row 1 ''a'' ''P'' ''2025-01-01 10:00:00'')]"
    by (simp add: rmbrl_command_peek_def command_def check_project_def query_log_def
                  sqlite3_select_def matches_def store_def row_def)
qed

lemma peek_first_only:
  "rmbrl_command_peek (command RMBRL_CMD_PEEK p None) db =
     (case check_project (command RMBRL_CMD_PEEK p None) of
        Some e \<Rightarrow> (1, db, [e])
      | None \<Rightarrow>
          (0, db\<lparr>db_trace := db_trace db @ [SQL_SELECT p]\<rparr>,
           rmbrl_log RMBRL_LOG_INFO ''Currently Remembering:\<newline>'' #
           map (row_line False) (take 1 (order_by_created_at_desc (filter (matches p) (db_rows db))))))"
  by (simp add: rmbrl_command_peek_def command_def query_log_def sqlite3_select_def peek_loop_map
           split: option.splits)

lemma clear_none_found:
  assumes "\<forall>r \<in> set (db_rows db). \<not> matches p r"
    and "check_project (command RMBRL_CMD_CLEAR p None) = None"
  shows "rmbrl_command_clear (command RMBRL_CMD_CLEAR p None) db =
           (1, db\<lparr>db_trace := db_trace db @ [SQL_SELECT_LIMIT_1 p]\<rparr>,
            [rmbrl_log RMBRL_LOG_ERROR ''Failed to remember memory to delete: not an error\<newline>''])"
  using assms(2) select_limit_1_empty [OF assms(1)]
  by (simp add: rmbrl_command_clear_def clear_resolve_def command_def query_log_def)

lemma clear_first_only:
  assumes "order_by_created_at_desc (filter (matches p) (db_rows db)) = r # rs"
    and "check_project (command RMBRL_CMD_CLEAR p None) = None"
    and "distinct (map mem_id (db_rows db))"
    and "- (2 ^ 31) \<le> mem_id r" "mem_id r < 2 ^ 31" "mem_id r \<noteq> - 1"
  shows "rmbrl_command_clear (command RMBRL_CMD_CLEAR p None) db =
           (0, db\<lparr>db_rows := filter (\<lambda>x. x \<noteq> r) (db_rows db),
                   db_trace := db_trace db @ [SQL_SELECT_LIMIT_1 p, SQL_DELETE_ID (mem_id r)]\<rparr>,
            [rmbrl_log RMBRL_LOG_INFO ''Forgotten Memories:\<newline>'', row_line False r])"
proof -
  let ?c = "command RMBRL_CMD_CLEAR p None"
  have c: "\<not> cmd_all ?c" "\<not> cmd_dry_run ?c" "cmd_project ?c = p"
    "cmd_verbosity ?c = RMBRL_VERB_NORMAL"
    by (simp_all add: command_def)
  from assms(1) have ord: "order_by_created_at_desc (filter (matches (cmd_project ?c)) (db_rows db)) = r # rs"
    by (simp add: c)
  from clear_latest_run [OF c(1) assms(2) c(2) ord assms(3,4,5,6)]
  show ?thesis by (simp add: c query_log_def)
qed

lemma clear_attached_empty_run:
  "main [''rmbrl'', ''clear'', ''-p=''] [] (Inr ''rmbrl.db'')
        (store [row 1 ''plain'' [] ''2025-01-01 10:00:00'', row 2 ''tagged'' ''P'' ''2025-01-01 10:00:07'']
           ''2025-01-01 10:00:10'') =
     Some (0, (store [row 1 ''plain'' [] ''2025-01-01 10:00:00'', row 2 ''tagged'' ''P'' ''2025-01-01 10:00:07'']
                 ''2025-01-01 10:00:10'')
                \<lparr>db_rows := [row 2 ''tagged'' ''P'' ''2025-01-01 10:00:07''],
                  db_trace := [SQL_CREATE_TABLE, SQL_SELECT_LIMIT_1 (Some []), SQL_DELETE_ID 1]\<rparr>,
           [rmbrl_log RMBRL_LOG_INFO ''Forgotten Memories:\<newline>'',
            row_line False (row 1 ''plain'' [] ''2025-01-01 10:00:00'')])"
  by (simp add: main_def scan_step_empty_attached ignored_warning_def rmbrl_command_clear_def
                check_project_def clear_resolve_def clear_delete_def query_log_def
                sqlite3_select_limit_1_def sqlite3_delete_id_def sqlite3_column_int_def
                sqlite3_create_table_def sqlite3_close_def matches_def store_def row_def Let_def)

lemma clear_without_project_run:
  "main [''rmbrl'', ''clear''] [] (Inr ''rmbrl.db'')
        (store [row 1 ''plain'' [] ''2025-01-01 10:00:00'', row 2 ''tagged'' ''P'' ''2025-01-01 10:00:07'']
           ''2025-01-01 10:00:10'') =
     Some (0, (store [row 1 ''plain'' [] ''2025-01-01 10:00:00'', row 2 ''tagged'' ''P'' ''2025-01-01 10:00:07'']
                 ''2025-01-01 10:00:10'')
                \<lparr>db_rows := [row 1 ''plain'' [] ''2025-01-01 10:00:00''],
                  db_trace := [SQL_CREATE_TABLE, SQL_SELECT_LIMIT_1 None, SQL_DELETE_ID 2]\<rparr>,
           [rmbrl_log RMBRL_LOG_INFO ''Forgotten Memories:\<newline>'',
            row_line False (row 2 ''tagged'' ''P'' ''2025-01-01 10:00:07'')])"
  by (simp add: main_def ignored_warning_def rmbrl_command_clear_def
                check_project_def clear_resolve_def clear_delete_def query_log_def
                sqlite3_select_limit_1_def sqlite3_delete_id_def sqlite3_column_int_def
                sqlite3_create_table_def sqlite3_close_def matches_def store_def row_def Let_def)

text \<open>
  C10. The arguments \<^verbatim>\<open>--project=\<close> and \<^verbatim>\<open>-p=\<close> are accepted and set the project to the
  empty string; \<^verbatim>\<open>main\<close> then runs \<^verbatim>\<open>peek\<close> or \<^verbatim>\<open>clear\<close> with that project. With
  the empty project and \<open>all\<close>, \<^verbatim>\<open>peek\<close> selects and \<^verbatim>\<open>clear\<close> deletes the rows whose
  project is empty, where without a project they take every row. Without \<open>all\<close>,
  \<^verbatim>\<open>peek\<close> with the empty project prints the newest of the rows whose project is empty,
  and without a project the newest of all rows. Without \<open>all\<close>, \<^verbatim>\<open>clear\<close> with the empty
  project returns 1 and deletes nothing when no row has an empty project; otherwise the
  \<^verbatim>\<open>SELECT ... WHERE project = '' ... LIMIT 1\<close> finds the newest row \<open>u\<close> whose project is
  empty and \<^verbatim>\<open>clear\<close> deletes \<open>u\<close> alone, where without a project it deletes the newest
  row \<open>v\<close> of the whole table (identifiers distinct, that of the row found within the
  range of a C \<^verbatim>\<open>int\<close> and different from \<open>-1\<close>). On a store holding an untagged row and
  a newer tagged row, \<^verbatim>\<open>rmbrl clear -p=\<close> deletes the untagged row and \<^verbatim>\<open>rmbrl clear\<close>
  the tagged one; on a store holding one tagged row, \<^verbatim>\<open>peek\<close> with the empty project
  prints no row and \<^verbatim>\<open>peek\<close> without a project prints the row.
\<close>

theorem empty_attached_project:
  "(scan_step trailing ''--project='' rest (cmd, ign) =
     Some ((cmd\<lparr>cmd_project := Some []\<rparr>, ign), False) \<and>
   scan_step trailing ''-p='' rest (cmd, ign) =
     Some ((cmd\<lparr>cmd_project := Some []\<rparr>, ign), False) \<and>
   main [prog, ''peek'', ''--project=''] trailing (Inr path) file =
     (case rmbrl_command_peek (command RMBRL_CMD_PEEK (Some []) None) (sqlite3_create_table file) of
        (rc, db', out) \<Rightarrow> Some (rc, sqlite3_close db', out)) \<and>
   main [prog, ''clear'', ''-p=''] trailing (Inr path) file =
     (case rmbrl_command_clear (command RMBRL_CMD_CLEAR (Some []) None) (sqlite3_create_table file) of
        (rc, db', out) \<Rightarrow> Some (rc, sqlite3_close db', out)) \<and>
   rmbrl_command_peek ((command RMBRL_CMD_PEEK (Some []) None)\<lparr>cmd_all := True\<rparr>) db =
     (0, db\<lparr>db_trace := db_trace db @ [SQL_SELECT (Some [])]\<rparr>,
      rmbrl_log RMBRL_LOG_INFO ''Currently Remembering:\<newline>'' #
      map (row_line False) (order_by_created_at_desc (filter (\<lambda>r. mem_project r = []) (db_rows db)))) \<and>
   rmbrl_command_peek ((command RMBRL_CMD_PEEK None None)\<lparr>cmd_all := True\<rparr>) db =
     (0, db\<lparr>db_trace := db_trace db @ [SQL_SELECT None]\<rparr>,
      rmbrl_log RMBRL_LOG_INFO ''Currently Remembering:\<newline>'' #
      map (row_line False) (order_by_created_at_desc (db_rows db))) \<and>
   rmbrl_command_clear ((command RMBRL_CMD_CLEAR (Some []) None)\<lparr>cmd_all := True\<rparr>) db =
     (0, db\<lparr>db_rows := filter (\<lambda>r. mem_project r \<noteq> []) (db_rows db),
             db_trace := db_trace db @ [SQL_DELETE (Some [])]\<rparr>,
      rmbrl_log RMBRL_LOG_INFO ''Forgotten Memories:\<newline>'' #
      map (row_line False) (filter (\<lambda>r. mem_project r = []) (db_rows db))) \<and>
   rmbrl_command_clear ((command RMBRL_CMD_CLEAR None None)\<lparr>cmd_all := True\<rparr>) db =
     (0, db\<lparr>db_rows := [], db_trace := db_trace db @ [SQL_DELETE None]\<rparr>,
      rmbrl_log RMBRL_LOG_INFO ''Forgotten Memories:\<newline>'' #
      map (row_line False) (db_rows db)) \<and>
   snd (snd (rmbrl_command_peek (command RMBRL_CMD_PEEK (Some []) None)
               (store [row 1 ''a'' ''P'' ''2025-01-01 10:00:00''] ''2025-01-01 10:00:10''))) =
     [rmbrl_log RMBRL_LOG_INFO ''Currently Remembering:\<newline>''] \<and>
   snd (snd (rmbrl_command_peek (command RMBRL_CMD_PEEK None None)
               (store [row 1 ''a'' ''P'' ''2025-01-01 10:00:00''] ''2025-01-01 10:00:10''))) =
     [rmbrl_log RMBRL_LOG_INFO ''Currently Remembering:\<newline>'',
      row_line False (row 1 ''a'' ''P'' ''2025-01-01 10:00:00'')]) \<and>
   rmbrl_command_peek (command RMBRL_CMD_PEEK (Some []) None) db =
     (0, db\<lparr>db_trace := db_trace db @ [SQL_SELECT (Some [])]\<rparr>,
      rmbrl_log RMBRL_LOG_INFO ''Currently Remembering:\<newline>'' #
      map (row_line False)
        (take 1 (order_by_created_at_desc (filter (\<lambda>r. mem_project r = []) (db_rows db))))) \<and>
   rmbrl_command_peek (command RMBRL_CMD_PEEK None None) db =
     (0, db\<lparr>db_trace := db_trace db @ [SQL_SELECT None]\<rparr>,
      rmbrl_log RMBRL_LOG_INFO ''Currently Remembering:\<newline>'' #
      map (row_line False) (take 1 (order_by_created_at_desc (db_rows db)))) \<and>
   ((\<forall>x \<in> set (db_rows db). mem_project x \<noteq> []) \<longrightarrow>
      rmbrl_command_clear (command RMBRL_CMD_CLEAR (Some []) None) db =
        (1, db\<lparr>db_trace := db_trace db @ [SQL_SELECT_LIMIT_1 (Some [])]\<rparr>,
         [rmbrl_log RMBRL_LOG_ERROR ''Failed to remember memory to delete: not an error\<newline>''])) \<and>
   (order_by_created_at_desc (filter (\<lambda>x. mem_project x = []) (db_rows db)) = u # us \<and>
    distinct (map mem_id (db_rows db)) \<and>
    - (2 ^ 31) \<le> mem_id u \<and> mem_id u < 2 ^ 31 \<and> mem_id u \<noteq> - 1 \<longrightarrow>
      rmbrl_command_clear (command RMBRL_CMD_CLEAR (Some []) None) db =
        (0, db\<lparr>db_rows := filter (\<lambda>x. x \<noteq> u) (db_rows db),
                db_trace := db_trace db @ [SQL_SELECT_LIMIT_1 (Some []), SQL_DELETE_ID (mem_id u)]\<rparr>,
         [rmbrl_log RMBRL_LOG_INFO ''Forgotten Memories:\<newline>'', row_line False u])) \<and>
   (order_by_created_at_desc (db_rows db) = v # vs \<and>
    distinct (map mem_id (db_rows db)) \<and>
    - (2 ^ 31) \<le> mem_id v \<and> mem_id v < 2 ^ 31 \<and> mem_id v \<noteq> - 1 \<longrightarrow>
      rmbrl_command_clear (command RMBRL_CMD_CLEAR None None) db =
        (0, db\<lparr>db_rows := filter (\<lambda>x. x \<noteq> v) (db_rows db),
                db_trace := db_trace db @ [SQL_SELECT_LIMIT_1 None, SQL_DELETE_ID (mem_id v)]\<rparr>,
         [rmbrl_log RMBRL_LOG_INFO ''Forgotten Memories:\<newline>'', row_line False v])) \<and>
   main [''rmbrl'', ''clear'', ''-p=''] [] (Inr ''rmbrl.db'')
        (store [row 1 ''plain'' [] ''2025-01-01 10:00:00'', row 2 ''tagged'' ''P'' ''2025-01-01 10:00:07'']
           ''2025-01-01 10:00:10'') =
     Some (0, (store [row 1 ''plain'' [] ''2025-01-01 10:00:00'', row 2 ''tagged'' ''P'' ''2025-01-01 10:00:07'']
                 ''2025-01-01 10:00:10'')
                \<lparr>db_rows := [row 2 ''tagged'' ''P'' ''2025-01-01 10:00:07''],
                  db_trace := [SQL_CREATE_TABLE, SQL_SELECT_LIMIT_1 (Some []), SQL_DELETE_ID 1]\<rparr>,
           [rmbrl_log RMBRL_LOG_INFO ''Forgotten Memories:\<newline>'',
            row_line False (row 1 ''plain'' [] ''2025-01-01 10:00:00'')]) \<and>
   main [''rmbrl'', ''clear''] [] (Inr ''rmbrl.db'')
        (store [row 1 ''plain'' [] ''2025-01-01 10:00:00'', row 2 ''tagged'' ''P'' ''2025-01-01 10:00:07'']
           ''2025-01-01 10:00:10'') =
     Some (0, (store [row 1 ''plain'' [] ''2025-01-01 10:00:00'', row 2 ''tagged'' ''P'' ''2025-01-01 10:00:07'']
                 ''2025-01-01 10:00:10'')
                \<lparr>db_rows := [row 1 ''plain'' [] ''2025-01-01 10:00:00''],
                  db_trace := [SQL_CREATE_TABLE, SQL_SELECT_LIMIT_1 None, SQL_DELETE_ID 2]\<rparr>,
           [rmbrl_log RMBRL_LOG_INFO ''Forgotten Memories:\<newline>'',
            row_line False (row 2 ''tagged'' ''P'' ''2025-01-01 10:00:07'')])"
proof -
  have n1: "rmbrl_command_peek (command RMBRL_CMD_PEEK (Some []) None) db =
     (0, db\<lparr>db_trace := db_trace db @ [SQL_SELECT (Some [])]\<rparr>,
      rmbrl_log RMBRL_LOG_INFO ''Currently Remembering:\<newline>'' #
      map (row_line False)
        (take 1 (order_by_created_at_desc (filter (\<lambda>r. mem_project r = []) (db_rows db)))))"
    by (subst peek_first_only) (simp add: check_project_def command_def matches_fun)
  have n2: "rmbrl_command_peek (command RMBRL_CMD_PEEK None None) db =
     (0, db\<lparr>db_trace := db_trace db @ [SQL_SELECT None]\<rparr>,
      rmbrl_log RMBRL_LOG_INFO ''Currently Remembering:\<newline>'' #
      map (row_line False) (take 1 (order_by_created_at_desc (db_rows db))))"
    by (subst peek_first_only) (simp add: check_project_def command_def matches_fun)
  have chk: "check_project (command RMBRL_CMD_CLEAR (Some []) None) = None"
    "check_project (command RMBRL_CMD_CLEAR None None) = None"
    by (simp_all add: check_project_def command_def)
  have n3: "((\<forall>x \<in> set (db_rows db). mem_project x \<noteq> []) \<longrightarrow>
      rmbrl_command_clear (command RMBRL_CMD_CLEAR (Some []) None) db =
        (1, db\<lparr>db_trace := db_trace db @ [SQL_SELECT_LIMIT_1 (Some [])]\<rparr>,
         [rmbrl_log RMBRL_LOG_ERROR ''Failed to remember memory to delete: not an error\<newline>'']))"
  proof (rule impI)
    assume "\<forall>x \<in> set (db_rows db). mem_project x \<noteq> []"
    then have "\<forall>x \<in> set (db_rows db). \<not> matches (Some []) x" by (simp add: matches_def)
    from clear_none_found [OF this chk(1)]
    show "rmbrl_command_clear (command RMBRL_CMD_CLEAR (Some []) None) db =
        (1, db\<lparr>db_trace := db_trace db @ [SQL_SELECT_LIMIT_1 (Some [])]\<rparr>,
         [rmbrl_log RMBRL_LOG_ERROR ''Failed to remember memory to delete: not an error\<newline>''])" .
  qed
  have n4: "(order_by_created_at_desc (filter (\<lambda>x. mem_project x = []) (db_rows db)) = u # us \<and>
    distinct (map mem_id (db_rows db)) \<and>
    - (2 ^ 31) \<le> mem_id u \<and> mem_id u < 2 ^ 31 \<and> mem_id u \<noteq> - 1 \<longrightarrow>
      rmbrl_command_clear (command RMBRL_CMD_CLEAR (Some []) None) db =
        (0, db\<lparr>db_rows := filter (\<lambda>x. x \<noteq> u) (db_rows db),
                db_trace := db_trace db @ [SQL_SELECT_LIMIT_1 (Some []), SQL_DELETE_ID (mem_id u)]\<rparr>,
         [rmbrl_log RMBRL_LOG_INFO ''Forgotten Memories:\<newline>'', row_line False u]))"
  proof (rule impI)
    assume a: "order_by_created_at_desc (filter (\<lambda>x. mem_project x = []) (db_rows db)) = u # us \<and>
      distinct (map mem_id (db_rows db)) \<and>
      - (2 ^ 31) \<le> mem_id u \<and> mem_id u < 2 ^ 31 \<and> mem_id u \<noteq> - 1"
    then have ord: "order_by_created_at_desc (filter (matches (Some [])) (db_rows db)) = u # us"
      by (simp add: matches_fun)
    from a clear_first_only [OF ord chk(1)]
    show "rmbrl_command_clear (command RMBRL_CMD_CLEAR (Some []) None) db =
        (0, db\<lparr>db_rows := filter (\<lambda>x. x \<noteq> u) (db_rows db),
                db_trace := db_trace db @ [SQL_SELECT_LIMIT_1 (Some []), SQL_DELETE_ID (mem_id u)]\<rparr>,
         [rmbrl_log RMBRL_LOG_INFO ''Forgotten Memories:\<newline>'', row_line False u])"
      by simp
  qed
  have n5: "(order_by_created_at_desc (db_rows db) = v # vs \<and>
    distinct (map mem_id (db_rows db)) \<and>
    - (2 ^ 31) \<le> mem_id v \<and> mem_id v < 2 ^ 31 \<and> mem_id v \<noteq> - 1 \<longrightarrow>
      rmbrl_command_clear (command RMBRL_CMD_CLEAR None None) db =
        (0, db\<lparr>db_rows := filter (\<lambda>x. x \<noteq> v) (db_rows db),
                db_trace := db_trace db @ [SQL_SELECT_LIMIT_1 None, SQL_DELETE_ID (mem_id v)]\<rparr>,
         [rmbrl_log RMBRL_LOG_INFO ''Forgotten Memories:\<newline>'', row_line False v]))"
  proof (rule impI)
    assume a: "order_by_created_at_desc (db_rows db) = v # vs \<and>
      distinct (map mem_id (db_rows db)) \<and>
      - (2 ^ 31) \<le> mem_id v \<and> mem_id v < 2 ^ 31 \<and> mem_id v \<noteq> - 1"
    then have ord: "order_by_created_at_desc (filter (matches None) (db_rows db)) = v # vs"
      by (simp add: matches_fun)
    from a clear_first_only [OF ord chk(2)]
    show "rmbrl_command_clear (command RMBRL_CMD_CLEAR None None) db =
        (0, db\<lparr>db_rows := filter (\<lambda>x. x \<noteq> v) (db_rows db),
                db_trace := db_trace db @ [SQL_SELECT_LIMIT_1 None, SQL_DELETE_ID (mem_id v)]\<rparr>,
         [rmbrl_log RMBRL_LOG_INFO ''Forgotten Memories:\<newline>'', row_line False v])"
      by simp
  qed
  note n6 = clear_attached_empty_run
  note n7 = clear_without_project_run
  show ?thesis
    by (rule conjI [OF empty_project_parsed]) (intro conjI n1 n2 n3 n4 n5 n6 n7)
qed

theorem empty_attached_project_witness:
  "rmbrl_command_clear (command RMBRL_CMD_CLEAR (Some []) None)
     (store [row 1 ''tagged'' ''P'' ''2025-01-01 10:00:07''] ''2025-01-01 10:00:10'') =
     (1, (store [row 1 ''tagged'' ''P'' ''2025-01-01 10:00:07''] ''2025-01-01 10:00:10'')
           \<lparr>db_trace := [SQL_SELECT_LIMIT_1 (Some [])]\<rparr>,
      [rmbrl_log RMBRL_LOG_ERROR ''Failed to remember memory to delete: not an error\<newline>'']) \<and>
   rmbrl_command_clear (command RMBRL_CMD_CLEAR (Some []) None)
     (store [row 1 ''plain'' [] ''2025-01-01 10:00:00'', row 2 ''tagged'' ''P'' ''2025-01-01 10:00:07'']
        ''2025-01-01 10:00:10'') =
     (0, (store [row 1 ''plain'' [] ''2025-01-01 10:00:00'', row 2 ''tagged'' ''P'' ''2025-01-01 10:00:07'']
            ''2025-01-01 10:00:10'')
           \<lparr>db_rows := [row 2 ''tagged'' ''P'' ''2025-01-01 10:00:07''],
             db_trace := [SQL_SELECT_LIMIT_1 (Some []), SQL_DELETE_ID 1]\<rparr>,
      [rmbrl_log RMBRL_LOG_INFO ''Forgotten Memories:\<newline>'',
       row_line False (row 1 ''plain'' [] ''2025-01-01 10:00:00'')])"
proof -
  let ?s1 = "store [row 1 ''tagged'' ''P'' ''2025-01-01 10:00:07''] ''2025-01-01 10:00:10''"
  let ?s2 = "store [row 1 ''plain'' [] ''2025-01-01 10:00:00'', row 2 ''tagged'' ''P'' ''2025-01-01 10:00:07'']
        ''2025-01-01 10:00:10''"
  let ?u = "row 1 ''plain'' [] ''2025-01-01 10:00:00''"
  have h1: "\<forall>x \<in> set (db_rows ?s1). mem_project x \<noteq> []"
    by (simp add: store_def row_def)
  have h2: "order_by_created_at_desc (filter (\<lambda>x. mem_project x = []) (db_rows ?s2)) = ?u # [] \<and>
      distinct (map mem_id (db_rows ?s2)) \<and>
      - (2 ^ 31) \<le> mem_id ?u \<and> mem_id ?u < 2 ^ 31 \<and> mem_id ?u \<noteq> - 1"
    by (simp add: store_def row_def)
  note none = empty_attached_project [where db = ?s1, THEN conjunct2, THEN conjunct2, THEN conjunct2,
      THEN conjunct1, THEN mp, OF h1]
  note one = empty_attached_project [where db = ?s2 and u = ?u and us = "[]", THEN conjunct2,
      THEN conjunct2, THEN conjunct2, THEN conjunct2, THEN conjunct1, THEN mp, OF h2]
  have r1: "db_trace ?s1 = []" by (simp add: store_def)
  have r2: "filter (\<lambda>x. x \<noteq> ?u) (db_rows ?s2) = [row 2 ''tagged'' ''P'' ''2025-01-01 10:00:07'']"
    "db_trace ?s2 = []" "mem_id ?u = 1"
    by (simp_all add: store_def row_def)
  from none one show ?thesis by (simp add: r1 r2)
qed

text \<open>
  C6 does not hold of the code. The token \<^verbatim>\<open>-p\<close> is three bytes with its terminator, and
  line 624 reads \<^verbatim>\<open>argv[i][9]\<close>, past its end. With the arguments
  \<^verbatim>\<open>peek -p --all =foo\<close> that byte is the \<^verbatim>\<open>=\<close> of the last argument, so the flag is
  taken as attached: the project becomes \<^verbatim>\<open>foo\<close>, \<^verbatim>\<open>--all\<close> is then read as a flag,
  \<^verbatim>\<open>=foo\<close> is ignored with a warning, and \<^verbatim>\<open>peek\<close> runs on the store and returns 0. With
  \<^verbatim>\<open>peek -p\<close> alone and the environment starting with \<^verbatim>\<open>EDITOR=vi\<close> the project becomes
  \<^verbatim>\<open>vi\<close>. No missing-project-name error is reported in either case. (Lemma
  \<open>missing_project_name\<close> above has the error for \<^verbatim>\<open>--project\<close>, and for \<^verbatim>\<open>-p\<close> when
  that byte is not \<^verbatim>\<open>=\<close>.)
\<close>

theorem project_flag_stray_equals:
  "main [''rmbrl'', ''peek'', ''-p'', ''--all'', ''=foo''] [] (Inr ''rmbrl.db'')
        (store [] ''2025-01-01 10:00:00'') =
     Some (0, (store [] ''2025-01-01 10:00:00'')\<lparr>db_trace := [SQL_CREATE_TABLE, SQL_SELECT (Some ''foo'')]\<rparr>,
           [Stderr ''[WARNING] Ignoring flags: =foo\<newline>'',
            Stderr ''[INFO] Currently Remembering:\<newline>'']) \<and>
   main [''rmbrl'', ''peek'', ''-p''] ''EDITOR=vi'' (Inr ''rmbrl.db'')
        (store [] ''2025-01-01 10:00:00'') =
     Some (0, (store [] ''2025-01-01 10:00:00'')\<lparr>db_trace := [SQL_CREATE_TABLE, SQL_SELECT (Some ''vi'')]\<rparr>,
           [Stderr ''[INFO] Currently Remembering:\<newline>''])"
  by (simp add: main_def scan_step_def argv_mem_def byte_at_def cstr_at_def NUL_def
                ignored_warning_def rmbrl_command_peek_def check_project_def query_log_def
                sqlite3_select_def sqlite3_create_table_def sqlite3_close_def store_def
                matches_def rmbrl_log_def)

text \<open>
  C7 does not hold of the code, by the same read past the end of \<^verbatim>\<open>-p\<close>. With the name
  \<^verbatim>\<open>abcdef=zzz\<close>, the arguments \<^verbatim>\<open>add -p abcdef=zzz t\<close> store a row with task
  \<^verbatim>\<open>abcdef=zzz\<close> and project \<^verbatim>\<open>zzz\<close> and warn that \<^verbatim>\<open>t\<close> is ignored, where
  \<^verbatim>\<open>add --project=abcdef=zzz t\<close> stores a row with task \<^verbatim>\<open>t\<close> and project
  \<^verbatim>\<open>abcdef=zzz\<close>. (Lemma \<open>project_forms_agree\<close> above has the equivalence of
  \<^verbatim>\<open>--project=N\<close>, \<^verbatim>\<open>-p=N\<close> and \<^verbatim>\<open>--project N\<close>, and of \<^verbatim>\<open>-p N\<close> when that byte
  is not \<^verbatim>\<open>=\<close>.)
\<close>

theorem short_project_flag_differs:
  "main [''rmbrl'', ''add'', ''-p'', ''abcdef=zzz'', ''t''] [] (Inr ''rmbrl.db'')
        (store [] ''2025-01-01 10:00:00'') =
     Some (0, (store [] ''2025-01-01 10:00:00'')
                \<lparr>db_rows := [row 1 ''abcdef=zzz'' ''zzz'' ''2025-01-01 10:00:00''], db_seq := 1,
                  db_trace := [SQL_CREATE_TABLE, SQL_INSERT ''abcdef=zzz'' ''zzz'']\<rparr>,
           [Stderr ''[WARNING] Ignoring flags: t\<newline>'',
            Stderr (''[INFO] '' @ dquote @ ''abcdef=zzz'' @ dquote @ '' was added to your memory!\<newline>'')]) \<and>
   main [''rmbrl'', ''add'', ''--project=abcdef=zzz'', ''t''] [] (Inr ''rmbrl.db'')
        (store [] ''2025-01-01 10:00:00'') =
     Some (0, (store [] ''2025-01-01 10:00:00'')
                \<lparr>db_rows := [row 1 ''t'' ''abcdef=zzz'' ''2025-01-01 10:00:00''], db_seq := 1,
                  db_trace := [SQL_CREATE_TABLE, SQL_INSERT ''t'' ''abcdef=zzz'']\<rparr>,
           [Stderr (''[INFO] '' @ dquote @ ''t'' @ dquote @ '' was added to your memory!\<newline>'')])"
  by (simp add: main_def scan_step_def argv_mem_def byte_at_def cstr_at_def NUL_def
                ignored_warning_def rmbrl_command_add_def check_project_def query_log_def
                sqlite3_insert_def sqlite3_create_table_def sqlite3_close_def store_def row_def
                rmbrl_log_def Let_def)

section \<open>The run returns\<close>

text \<open>
  The scan never changes the function, and \<^verbatim>\<open>main\<close> calls \<^verbatim>\<open>add\<close> only with a task
  (line 684), so the \<^verbatim>\<open>NULL\<close> dereference of line 277 and the unreachable default of
  the dispatch never happen: every run of \<^verbatim>\<open>main\<close> returns.
\<close>

lemma scan_step_function_case:
  "(case scan_step trailing arg rest (cmd, ign) of
      None \<Rightarrow> True
    | Some ((cmd', ign'), k) \<Rightarrow> cmd_function cmd' = cmd_function cmd)"
  by (simp add: scan_step_def Let_def split: list.splits)

lemma scan_args_function:
  "scan_args trailing args st = Some st' \<Longrightarrow> cmd_function (fst st') = cmd_function (fst st)"
proof (induction trailing args st rule: scan_args.induct)
  case (1 trailing st)
  then show ?case by simp
next
  case (2 trailing arg rest st)
  obtain cmd ign where st: "st = (cmd, ign)" by (cases st)
  from "2.prems" obtain st1 k where
    step: "scan_step trailing arg rest st = Some (st1, k)"
    and run: "scan_args trailing (if k then drop 1 rest else rest) st1 = Some st'"
    by (auto split: option.splits)
  obtain cmd1 ign1 where st1: "st1 = (cmd1, ign1)" by (cases st1)
  from step have "cmd_function cmd1 = cmd_function cmd"
    using scan_step_function_case [where trailing = trailing and arg = arg and rest = rest and cmd = cmd and ign = ign]
    by (simp add: st st1)
  with "2.IH" [OF step refl run] show ?case by (simp add: st st1)
qed

lemma add_returns: "cmd_task cmd \<noteq> None \<Longrightarrow> \<exists>r. rmbrl_command_add cmd db = Some r"
  by (auto simp: rmbrl_command_add_def Let_def split: option.splits prod.splits)

lemma main_returns: "\<exists>r. main argv trailing storage file = Some r"
proof -
  let ?f = "if argv ! 1 = ''add'' then RMBRL_CMD_ADD
            else if argv ! 1 = ''peek'' then RMBRL_CMD_PEEK
            else if argv ! 1 = ''clear'' then RMBRL_CMD_CLEAR else RMBRL_CMD_UNKNOWN"
  let ?init = "(\<lparr>cmd_function = ?f, cmd_verbosity = RMBRL_VERB_NORMAL, cmd_project = None,
                 cmd_task = None, cmd_all = False, cmd_dry_run = False\<rparr>, [])"
  show ?thesis
  proof (cases "scan_args trailing (drop 2 argv) ?init")
    case None
    then show ?thesis by (simp add: main_def Let_def del: scan_args.simps)
  next
    case (Some st)
    obtain cmd ign where st: "st = (cmd, ign)" by (cases st)
    from scan_args_function [OF Some] have f: "cmd_function cmd = ?f" by (simp add: st)
    show ?thesis
    proof (cases "cmd_function cmd")
      case RMBRL_CMD_UNKNOWN
      with f show ?thesis by (simp add: main_def Let_def del: scan_args.simps split: if_splits)
    next
      case RMBRL_CMD_ADD
      show ?thesis
      proof (cases "cmd_task cmd")
        case None
        with RMBRL_CMD_ADD f Some st show ?thesis
          by (simp add: main_def Let_def del: scan_args.simps)
      next
        case (Some t)
        then obtain r where "rmbrl_command_add cmd (sqlite3_create_table file) = Some r"
          using add_returns [of cmd "sqlite3_create_table file"] by auto
        with RMBRL_CMD_ADD f \<open>scan_args trailing (drop 2 argv) ?init = Some st\<close> st Some show ?thesis
          by (cases r; cases storage) (auto simp: main_def Let_def simp del: scan_args.simps)
      qed
    next
      case RMBRL_CMD_PEEK
      with f Some st show ?thesis
        by (cases storage)
           (auto simp: main_def Let_def simp del: scan_args.simps split: prod.splits)
    next
      case RMBRL_CMD_CLEAR
      with f Some st show ?thesis
        by (cases storage)
           (auto simp: main_def Let_def simp del: scan_args.simps split: prod.splits)
    qed
  qed
qed

end
